theory Spec2Isabelle
  imports Main "HOL-Library.Word"
begin

unbundle bit_operations_syntax

section \<open>Shared declarations\<close>

text \<open>
  Objects that the C code reaches through pointers live in stores; a pointer is the
  position of the object in its store and \<open>NULL\<close> is \<open>None\<close>.
\<close>

type_synonym ref = nat

text \<open>
  Modelled from the spec: the timer engine, which is not part of the source. By the spec
  a timer is scheduled with its kind (one-shot or periodic), its interval, its user
  data and its callback. A timer is recorded with the arguments that
  \<open>timer_add_periodic\<close> receives in the source: its name, the interval in seconds
  and nanoseconds, the user data pointer and the callback; the timers of
  \<open>timer_root\<close> are a list, and the handle of a timer is its position there.
\<close>

datatype timer_cb = Bbl_interface_rate_job | Ldp_interface_hello_job

record timer_s =
  timer_name :: string
  timer_sec :: nat
  timer_nsec :: nat
  timer_periodic :: bool
  timer_data :: ref
  timer_callback :: timer_cb

text \<open>
  The \<open>LOG\<close> macro is declared outside the source. Every call of it is recorded as
  one entry, with the arguments that identify the message.
\<close>

datatype log_entry =
    Log_no_memory string
  | Log_interface_in_use string int string
  | Log_invalid_lock_file string
  | Log_lock_open_failed string
  | Log_mac_address_error string
  | Log_interface_index_error string
  | Log_duplicate_link string
  | Log_add_link_failed string
  | Log_ldp_add_interface string nat

section \<open>LDP interface: \<open>ldp/ldp_interface.c\<close>\<close>

subsection \<open>Data\<close>

text \<open>
  Modelled from the spec: the adjacency state, which no file of the source declares.
  The spec names the states \<open>DOWN\<close>, \<open>HELLO_ACTIVE\<close> and \<open>OPERATIONAL\<close>; an
  adjacency starts in \<open>DOWN\<close>, which is therefore the state of zeroed memory.
\<close>

datatype ldp_adjacency_state = DOWN | HELLO_ACTIVE | OPERATIONAL

text \<open>
  \<open>bbl_network_interface_s\<close> is declared outside the source. The record has the fields
  that \<open>ldp_interface.c\<close> touches; every other field of the C struct is the extension
  of the record scheme. The type of \<open>send_requests\<close> is a parameter: the functions below
  take it to be a machine word of any width.
\<close>

record 's bbl_network_interface_s =
  ni_name :: string
  ni_send_requests :: 's
  ni_ldp_adjacency :: "ref option"

text \<open>
  Modelled from the spec: the LDP configuration, of which the source only passes a
  pointer on. The spec gives it the Hello interval.
\<close>

record ldp_config_s =
  ldp_hello_interval :: nat

record ldp_adjacency_s =
  adj_next :: "ref option"
  adj_instance :: "ref option"
  adj_interface :: "ref option"
  adj_hello_timer :: "ref option"
  adj_state :: ldp_adjacency_state

record ldp_instance_s =
  inst_config :: ldp_config_s
  inst_adjacencies :: "ref option"

record bbl_network_config_s =
  ldp_instance_id :: nat

text \<open>
  The memory that the LDP code works on. Adjacencies are allocated by this code, so
  their store is a list that \<open>calloc\<close> extends; network interfaces and instances are
  created elsewhere.
\<close>

record ('s, 'x) ldp_world =
  netifs :: "ref \<Rightarrow> ('s, 'x) bbl_network_interface_s_scheme option"
  adjacencies :: "ldp_adjacency_s list"
  instances :: "ref \<Rightarrow> ldp_instance_s option"
  ldp_timer_root :: "timer_s list"
  ldp_log :: "log_entry list"

definition adjacency_at :: "('s, 'x) ldp_world \<Rightarrow> ref \<Rightarrow> ldp_adjacency_s option" where
  "adjacency_at w a = (if a < length (adjacencies w) then Some (adjacencies w ! a) else None)"

subsection \<open>The Hello job\<close>

text \<open>
  \<open>ldp_interface_hello_job\<close>: the timer's data is the adjacency, the adjacency leads to
  its interface, and the request bit is or-ed into \<open>send_requests\<close>. The result is
  \<open>None\<close> where the C code dereferences a pointer that leads to no object. The macro
  \<open>BBL_IF_SEND_LDP_HELLO\<close> is declared outside the source and is a parameter.
\<close>

definition ldp_interface_hello_job ::
  "'w::len word \<Rightarrow> timer_s \<Rightarrow> ('w word, 'x) ldp_world \<Rightarrow> ('w word, 'x) ldp_world option" where
  "ldp_interface_hello_job BBL_IF_SEND_LDP_HELLO timer w =
     (case adjacency_at w (timer_data timer) of
        None \<Rightarrow> None
      | Some adjacency \<Rightarrow>
          (case adj_interface adjacency of
             None \<Rightarrow> None
           | Some i \<Rightarrow>
               (case netifs w i of
                  None \<Rightarrow> None
                | Some interface \<Rightarrow>
                    Some (w\<lparr>netifs := (netifs w)(i \<mapsto> interface
                      \<lparr>ni_send_requests :=
                         ni_send_requests interface OR BBL_IF_SEND_LDP_HELLO\<rparr>)\<rparr>))))"

text \<open>
  The timer engine calls the job once per Hello interval. \<open>hello_timer_fires k\<close> is
  \<open>k\<close> such calls in a row, with nothing else touching the memory in between.
\<close>

fun hello_timer_fires ::
  "nat \<Rightarrow> 'w::len word \<Rightarrow> timer_s \<Rightarrow> ('w word, 'x) ldp_world \<Rightarrow> ('w word, 'x) ldp_world option" where
  "hello_timer_fires 0 flag timer w = Some w"
| "hello_timer_fires (Suc k) flag timer w =
     (case ldp_interface_hello_job flag timer w of
        None \<Rightarrow> None
      | Some w' \<Rightarrow> hello_timer_fires k flag timer w')"

text \<open>The interface that an adjacency is bound to, when both exist.\<close>

definition bound_interface ::
  "('s, 'x) ldp_world \<Rightarrow> ref \<Rightarrow> (ref \<times> ('s, 'x) bbl_network_interface_s_scheme) option" where
  "bound_interface w a =
     (case adjacency_at w a of
        None \<Rightarrow> None
      | Some adjacency \<Rightarrow>
          (case adj_interface adjacency of
             None \<Rightarrow> None
           | Some i \<Rightarrow> (case netifs w i of None \<Rightarrow> None | Some interface \<Rightarrow> Some (i, interface))))"

subsection \<open>Attaching an instance to an interface\<close>

text \<open>
  \<open>calloc\<close> of an adjacency: a new object with every field zero, at an address that
  was not in use, or \<open>NULL\<close> when there is no memory (\<open>ok\<close> is false).
\<close>

definition ldp_adjacency_zero :: ldp_adjacency_s where
  "ldp_adjacency_zero =
     \<lparr>adj_next = None, adj_instance = None, adj_interface = None,
      adj_hello_timer = None, adj_state = DOWN\<rparr>"

definition calloc_adjacency ::
  "bool \<Rightarrow> ('s, 'x) ldp_world \<Rightarrow> ref option \<times> ('s, 'x) ldp_world" where
  "calloc_adjacency ok w =
     (if ok then (Some (length (adjacencies w)),
                  w\<lparr>adjacencies := adjacencies w @ [ldp_adjacency_zero]\<rparr>)
      else (None, w))"

text \<open>
  Modelled from the spec: \<open>ldp_hello_start\<close>, which \<open>ldp_interface_init\<close> calls and
  which is defined outside the source. By the spec the attachment arms a periodic Hello
  timer scoped to the adjacency, at the configured Hello interval, and the adjacency
  goes from \<open>DOWN\<close> to \<open>HELLO_ACTIVE\<close> as the timer is armed.
\<close>

definition ldp_hello_start ::
  "ldp_config_s \<Rightarrow> ref \<Rightarrow> ('s, 'x) ldp_world \<Rightarrow> ('s, 'x) ldp_world option" where
  "ldp_hello_start config a w =
     (case adjacency_at w a of
        None \<Rightarrow> None
      | Some adjacency \<Rightarrow>
          Some (w\<lparr>ldp_timer_root := ldp_timer_root w @
                    [\<lparr>timer_name = ''LDP hello'', timer_sec = ldp_hello_interval config,
                      timer_nsec = 0, timer_periodic = True, timer_data = a,
                      timer_callback = Ldp_interface_hello_job\<rparr>],
                  adjacencies := (adjacencies w)[a := adjacency
                    \<lparr>adj_hello_timer := Some (length (ldp_timer_root w)),
                     adj_state := (if adj_state adjacency = DOWN then HELLO_ACTIVE
                                   else adj_state adjacency)\<rparr>]\<rparr>))"

text \<open>
  \<open>ldp_interface_init\<close>, statement by statement. \<open>interface\<close> and \<open>instance\<close> are
  pointers; \<open>calloc_ok\<close> says whether \<open>calloc\<close> finds memory. The C code does not test
  the result of \<open>calloc\<close>, so without memory it writes through \<open>NULL\<close>: the result is
  \<open>None\<close> there, as for any other pointer that leads to no object. The interface
  configuration is read for the log message only and is passed by value.
\<close>

definition ldp_interface_init ::
  "bool \<Rightarrow> ref \<Rightarrow> bbl_network_config_s \<Rightarrow> ref \<Rightarrow> ('s, 'x) ldp_world
   \<Rightarrow> (bool \<times> ('s, 'x) ldp_world) option" where
  "ldp_interface_init calloc_ok interface interface_config instance w =
     (case instances w instance of
        None \<Rightarrow> None
      | Some inst \<Rightarrow>
          (case netifs w interface of
             None \<Rightarrow> None
           | Some ifc \<Rightarrow>
               let config = inst_config inst;
                   w = w\<lparr>ldp_log := ldp_log w @
                         [Log_ldp_add_interface (ni_name ifc) (ldp_instance_id interface_config)]\<rparr>
               in (case calloc_adjacency calloc_ok w of
                     (None, w) \<Rightarrow> None
                   | (Some adjacency, w) \<Rightarrow>
                       let w = w\<lparr>adjacencies := (adjacencies w)[adjacency :=
                                 (adjacencies w ! adjacency)\<lparr>adj_next := inst_adjacencies inst\<rparr>]\<rparr>;
                           w = w\<lparr>instances := (instances w)(instance \<mapsto>
                                 inst\<lparr>inst_adjacencies := Some adjacency\<rparr>)\<rparr>;
                           w = w\<lparr>adjacencies := (adjacencies w)[adjacency :=
                                 (adjacencies w ! adjacency)\<lparr>adj_instance := Some instance\<rparr>]\<rparr>;
                           w = w\<lparr>adjacencies := (adjacencies w)[adjacency :=
                                 (adjacencies w ! adjacency)\<lparr>adj_interface := Some interface\<rparr>]\<rparr>;
                           w = w\<lparr>netifs := (netifs w)(interface \<mapsto>
                                 ifc\<lparr>ni_ldp_adjacency := Some adjacency\<rparr>)\<rparr>
                       in (case ldp_hello_start config adjacency w of
                             None \<Rightarrow> None
                           | Some w \<Rightarrow> Some (True, w)))))"

subsection \<open>Events of an adjacency\<close>

text \<open>
  Modelled from the spec: what happens to an adjacency after its creation. The source
  has the Hello job only; the receipt of a peer Hello and the expiry of the hold timer
  are handled outside it. By the spec a valid peer Hello takes \<open>HELLO_ACTIVE\<close> to
  \<open>OPERATIONAL\<close>, and the expiry of the hold timer takes \<open>OPERATIONAL\<close> back to
  \<open>HELLO_ACTIVE\<close>.
\<close>

datatype ldp_event = Hello_timer_fired ref | Peer_hello_received ref | Hold_timer_expired ref

definition ldp_peer_hello :: "ref \<Rightarrow> ('s, 'x) ldp_world \<Rightarrow> ('s, 'x) ldp_world option" where
  "ldp_peer_hello a w =
     (case adjacency_at w a of
        None \<Rightarrow> None
      | Some adjacency \<Rightarrow>
          Some (w\<lparr>adjacencies := (adjacencies w)[a := adjacency
            \<lparr>adj_state := (if adj_state adjacency = HELLO_ACTIVE then OPERATIONAL
                          else adj_state adjacency)\<rparr>]\<rparr>))"

definition ldp_hold_expired :: "ref \<Rightarrow> ('s, 'x) ldp_world \<Rightarrow> ('s, 'x) ldp_world option" where
  "ldp_hold_expired a w =
     (case adjacency_at w a of
        None \<Rightarrow> None
      | Some adjacency \<Rightarrow>
          Some (w\<lparr>adjacencies := (adjacencies w)[a := adjacency
            \<lparr>adj_state := (if adj_state adjacency = OPERATIONAL then HELLO_ACTIVE
                          else adj_state adjacency)\<rparr>]\<rparr>))"

text \<open>
  One event. A firing of timer \<open>t\<close> runs the callback of the source on that timer.
\<close>

fun ldp_event_step ::
  "'w::len word \<Rightarrow> ldp_event \<Rightarrow> ('w word, 'x) ldp_world \<Rightarrow> ('w word, 'x) ldp_world option" where
  "ldp_event_step flag (Hello_timer_fired t) w =
     (if t < length (ldp_timer_root w)
         \<and> timer_callback (ldp_timer_root w ! t) = Ldp_interface_hello_job
      then ldp_interface_hello_job flag (ldp_timer_root w ! t) w
      else None)"
| "ldp_event_step flag (Peer_hello_received a) w = ldp_peer_hello a w"
| "ldp_event_step flag (Hold_timer_expired a) w = ldp_hold_expired a w"

fun ldp_events ::
  "'w::len word \<Rightarrow> ldp_event list \<Rightarrow> ('w word, 'x) ldp_world \<Rightarrow> ('w word, 'x) ldp_world option" where
  "ldp_events flag [] w = Some w"
| "ldp_events flag (e # es) w =
     (case ldp_event_step flag e w of
        None \<Rightarrow> None
      | Some w' \<Rightarrow> ldp_events flag es w')"

text \<open>The state of an adjacency, when it exists.\<close>

definition adjacency_state :: "('s, 'x) ldp_world \<Rightarrow> ref \<Rightarrow> ldp_adjacency_state option" where
  "adjacency_state w a = map_option adj_state (adjacency_at w a)"

section \<open>Interfaces: \<open>bbl_interface.c\<close>\<close>

subsection \<open>The C library\<close>

text \<open>
  \<open>snprintf(buf, n, ...)\<close> stores at most \<open>n - 1\<close> characters of the formatted text.
\<close>

definition snprintf :: "nat \<Rightarrow> string \<Rightarrow> string" where
  "snprintf n text = take (n - 1) text"

text \<open>The conversion \<open>%d\<close> of \<open>printf\<close>: a sign when negative, then the decimal digits.\<close>

definition digit_char :: "nat \<Rightarrow> char" where
  "digit_char d = ''0123456789'' ! d"

fun dec_nat :: "nat \<Rightarrow> string" where
  "dec_nat n = (if n < 10 then [digit_char n] else dec_nat (n div 10) @ [digit_char (n mod 10)])"

declare dec_nat.simps [simp del]

definition printf_d :: "int \<Rightarrow> string" where
  "printf_d i = (if i < 0 then CHR ''-'' # dec_nat (nat (- i)) else dec_nat (nat i))"

text \<open>
  The conversion \<open>%d\<close> of \<open>fscanf\<close> at the start of a file: white space is skipped, then
  an optional sign and the longest run of decimal digits are read; without a digit
  nothing is converted (\<open>None\<close>: the call does not return 1). A number outside the range
  of \<open>int\<close> is undefined in ISO C; the value here is what the GNU C library stores on
  a 64-bit system (\<open>strtol\<close> saturates at the range of \<open>long\<close>, and the assignment to
  the \<open>int\<close> keeps the low 32 bits).
\<close>

definition isspace :: "char \<Rightarrow> bool" where
  "isspace c = (c = CHR '' '' \<or> (9 \<le> (of_char c :: nat) \<and> (of_char c :: nat) \<le> 13))"

definition isdigit :: "char \<Rightarrow> bool" where
  "isdigit c = (48 \<le> (of_char c :: nat) \<and> (of_char c :: nat) \<le> 57)"

definition digits_value :: "string \<Rightarrow> int" where
  "digits_value ds = foldl (\<lambda>acc c. 10 * acc + (int (of_char c) - 48)) 0 ds"

definition long_to_int :: "int \<Rightarrow> int" where
  "long_to_int v =
     (let l = max (- (2 ^ 63)) (min (2 ^ 63 - 1) v)
      in (l + 2 ^ 31) mod 2 ^ 32 - 2 ^ 31)"

definition scanf_d :: "string \<Rightarrow> int option" where
  "scanf_d input =
     (let s = dropWhile isspace input;
          neg = (s \<noteq> [] \<and> hd s = CHR ''-'');
          s' = (if s \<noteq> [] \<and> (hd s = CHR ''-'' \<or> hd s = CHR ''+'') then tl s else s);
          ds = takeWhile isdigit s'
      in if ds = [] then None
         else Some (long_to_int (if neg then - digits_value ds else digits_value ds)))"

text \<open>Constants of the system headers.\<close>

definition ENOENT :: int where
  "ENOENT = 2"

definition IFNAMSIZ :: nat where
  "IFNAMSIZ = 16"

definition IFHWADDRLEN :: nat where
  "IFHWADDRLEN = 6"

definition ETH_ADDR_LEN :: nat where
  "ETH_ADDR_LEN = 6"

subsection \<open>Data\<close>

text \<open>
  The structs are declared outside the source; the records have the fields that
  \<open>bbl_interface.c\<close> reads or writes. \<open>io_mode\<close> is an enumeration whose values the
  source does not give, so a mode is its number, and zeroed memory holds mode 0.
  \<open>lc_mac_u64\<close> is the value of \<open>*(uint64_t*)link_config->mac\<close>: the eight bytes at
  the start of the configured address, as the machine reads them. The counter
  \<open>g_ctx->pcap.index\<close> and the field \<open>pcap_index\<close> are taken to be 32 bits wide.
\<close>

type_synonym io_mode_t = nat

record bbl_link_config_s =
  lc_interface :: string
  lc_io_mode :: io_mode_t
  lc_mac :: "8 word list"
  lc_mac_u64 :: "64 word"

record bbl_interface_s =
  if_name :: string
  if_pcap_index :: "32 word"
  if_config :: "bbl_link_config_s option"
  if_io_mode :: io_mode_t
  if_io_rx_buf :: "nat option"
  if_io_tx_buf :: "nat option"
  if_mac :: "8 word list"
  if_ifindex :: int
  if_rate_job :: "ref option"

text \<open>An interface as \<open>calloc\<close> returns it.\<close>

definition bbl_interface_zero :: bbl_interface_s where
  "bbl_interface_zero =
     \<lparr>if_name = [], if_pcap_index = 0, if_config = None, if_io_mode = 0,
      if_io_rx_buf = None, if_io_tx_buf = None, if_mac = replicate 6 0,
      if_ifindex = 0, if_rate_job = None\<rparr>"

text \<open>
  What the code asks of its surroundings, as parameters: the macros that are defined
  outside the source (\<open>FILE_PATH_LEN\<close>, \<open>IO_BUFFER_LEN\<close>, the enumerator
  \<open>IO_MODE_DPDK\<close>), the answers of the operating system, and the functions of the
  repository that the source calls but does not contain, of which it uses the boolean
  result.
  \<^item> \<open>os_stat path\<close> is \<open>None\<close> when \<open>stat\<close> returns 0 and \<open>Some e\<close> when it returns -1
    with \<open>errno = e\<close>;
  \<^item> \<open>os_fopen_w path\<close> says whether the file can be opened for writing;
  \<^item> \<open>os_remove path\<close> says whether \<open>remove\<close> deletes the file;
  \<^item> \<open>os_calloc name\<close> and \<open>os_malloc n\<close> say whether memory is found;
  \<^item> the two \<open>ioctl\<close> queries give the hardware address bytes and the index of a
    device name, or \<open>None\<close> when the call returns -1.
\<close>

record os_s =
  os_FILE_PATH_LEN :: nat
  os_IO_BUFFER_LEN :: nat
  os_IO_MODE_DPDK :: io_mode_t
  os_getpid :: int
  os_stat :: "string \<Rightarrow> int option"
  os_fopen_w :: "string \<Rightarrow> bool"
  os_remove :: "string \<Rightarrow> bool"
  os_calloc :: "string \<Rightarrow> bool"
  os_malloc :: "nat \<Rightarrow> bool"
  os_ioctl_SIOCGIFHWADDR :: "string \<Rightarrow> 8 word list option"
  os_ioctl_SIOCGIFINDEX :: "string \<Rightarrow> int option"
  os_bbl_lag_interface_add :: "bbl_interface_s \<Rightarrow> bbl_link_config_s \<Rightarrow> bool"
  os_bbl_io_add_interface :: "bbl_interface_s \<Rightarrow> bool"

text \<open>
  The state that the code changes: the fields of the global context \<open>g_ctx\<close> that it
  uses, the files it can open for reading (path to content), and the log.
  \<open>interface_qhead\<close> is the circular queue of interfaces from head to tail; the
  configured links are the chain of \<open>link_config->next\<close>.
\<close>

record bbl_state =
  interface_qhead :: "bbl_interface_s list"
  pcap_index :: "32 word"
  config_interface_lock_force :: bool
  config_link_config :: "bbl_link_config_s list"
  timer_root :: "timer_s list"
  fs :: "string \<Rightarrow> string option"
  bbl_log :: "log_entry list"

definition LOG :: "log_entry \<Rightarrow> bbl_state \<Rightarrow> bbl_state" where
  "LOG entry s = s\<lparr>bbl_log := bbl_log s @ [entry]\<rparr>"

text \<open>One constructor for every place where the code returns failure.\<close>

datatype error =
    No_memory
  | Lock_in_use
  | Lock_invalid
  | Lock_open_failed
  | Mac_address_error
  | Interface_index_error
  | Lag_interface_add_failed
  | Io_add_interface_failed
  | Duplicate_link

subsection \<open>Locking\<close>

definition lock_path_of :: "os_s \<Rightarrow> string \<Rightarrow> string" where
  "lock_path_of os interface_name =
     snprintf (os_FILE_PATH_LEN os) (''/run/lock/bngblaster_'' @ interface_name @ ''.lock'')"

text \<open>
  \<open>bbl_interface_lock\<close>. \<open>create\<close> is the tail of the function from the comment
  \<open>crate lock file\<close> on; \<open>unless_forced\<close> is the statement
  \<open>if(!g_ctx->config.interface_lock_force) return false;\<close> of the two error
  branches, after which control reaches the tail.
\<close>

definition bbl_interface_lock :: "os_s \<Rightarrow> string \<Rightarrow> bbl_state \<Rightarrow> (error + unit) \<times> bbl_state" where
  "bbl_interface_lock os interface_name s =
     (let pid = os_getpid os;
          lock_path = lock_path_of os interface_name;
          create = (\<lambda>s.
            let lock_pid = pid in
            if \<not> os_fopen_w os lock_path
            then (Inl Lock_open_failed, LOG (Log_lock_open_failed lock_path) s)
            else (Inr (), s\<lparr>fs := (fs s)(lock_path \<mapsto> printf_d lock_pid)\<rparr>));
          unless_forced = (\<lambda>e s.
            if \<not> config_interface_lock_force s then (Inl e, s) else create s)
      in case fs s lock_path of
           None \<Rightarrow> create s
         | Some content \<Rightarrow>
             (case scanf_d content of
                None \<Rightarrow> unless_forced Lock_invalid (LOG (Log_invalid_lock_file lock_path) s)
              | Some lock_pid \<Rightarrow>
                  if lock_pid > 1 then
                    (let proc_pid_path =
                           snprintf (os_FILE_PATH_LEN os) (''/proc/'' @ printf_d lock_pid)
                     in if \<not> (os_stat os proc_pid_path = Some ENOENT)
                        then unless_forced Lock_in_use
                               (LOG (Log_interface_in_use interface_name lock_pid lock_path) s)
                        else create s)
                  else unless_forced Lock_invalid (LOG (Log_invalid_lock_file lock_path) s)))"

text \<open>\<open>bbl_interface_unlock_all\<close>: the lock file of every interface in the queue is removed.\<close>

definition bbl_interface_unlock_all :: "os_s \<Rightarrow> bbl_state \<Rightarrow> bbl_state" where
  "bbl_interface_unlock_all os s =
     foldl (\<lambda>s interface.
              let lock_path = lock_path_of os (if_name interface)
              in if os_remove os lock_path then s\<lparr>fs := (fs s)(lock_path := None)\<rparr> else s)
       s (interface_qhead s)"

subsection \<open>Kernel information\<close>

text \<open>
  \<open>bbl_interface_set_kernel_info\<close>. The interface is passed by pointer and written in
  place, so the result carries the interface as the function leaves it, also when it
  fails after the first query.
\<close>

definition bbl_interface_set_kernel_info ::
  "os_s \<Rightarrow> bbl_interface_s \<Rightarrow> bbl_state \<Rightarrow> (error + unit) \<times> bbl_interface_s \<times> bbl_state" where
  "bbl_interface_set_kernel_info os interface s =
     (if if_io_mode interface = os_IO_MODE_DPDK os then (Inr (), interface, s)
      else
        let ifr_name = snprintf IFNAMSIZ (if_name interface) in
        case os_ioctl_SIOCGIFHWADDR os ifr_name of
          None \<Rightarrow>
            (Inl Mac_address_error, interface, LOG (Log_mac_address_error (if_name interface)) s)
        | Some sa_data \<Rightarrow>
            let interface = interface\<lparr>if_mac := take IFHWADDRLEN sa_data\<rparr> in
            (case os_ioctl_SIOCGIFINDEX os ifr_name of
               None \<Rightarrow>
                 (Inl Interface_index_error, interface,
                  LOG (Log_interface_index_error (if_name interface)) s)
             | Some ifr_ifindex \<Rightarrow>
                 (Inr (), interface\<lparr>if_ifindex := ifr_ifindex\<rparr>, s)))"

subsection \<open>Registration\<close>

text \<open>
  \<open>bbl_interface_add\<close>. After \<open>CIRCLEQ_INSERT_TAIL\<close> the queue holds the pointer
  \<open>interface\<close>, so every later write to the interface shows in the last entry of the
  queue: each return after the insertion leaves the queue as \<open>q @ [interface]\<close> with
  the interface as written so far. The result is the interface on success
  (\<open>Inr\<close>) and the place of the \<open>return NULL\<close> otherwise. The data of the rate timer
  is the interface, given by its position in the queue; its callback
  \<open>bbl_interface_rate_job\<close> only calls \<open>bbl_compute_avg_rate\<close>, which the source does
  not contain, and is present as the name of the callback. The code does not test the
  results of \<open>strdup\<close> and \<open>malloc\<close>: \<open>strdup\<close> is taken to return the copy of the
  name, and a buffer is its capacity, or \<open>None\<close> when \<open>malloc\<close> returns \<open>NULL\<close>.
\<close>

definition bbl_interface_add ::
  "os_s \<Rightarrow> string \<Rightarrow> bbl_link_config_s \<Rightarrow> bbl_state \<Rightarrow> (error + bbl_interface_s) \<times> bbl_state" where
  "bbl_interface_add os interface_name link_config s =
     (if \<not> os_calloc os interface_name
      then (Inl No_memory, LOG (Log_no_memory interface_name) s)
      else
        let interface = bbl_interface_zero\<lparr>if_name := interface_name\<rparr>;
            interface = interface\<lparr>if_pcap_index := pcap_index s\<rparr>;
            s = s\<lparr>pcap_index := pcap_index s + 1\<rparr>
        in case bbl_interface_lock os interface_name s of
             (Inl e, s) \<Rightarrow> (Inl e, s)
           | (Inr _, s) \<Rightarrow>
               let q = interface_qhead s;
                   s = s\<lparr>interface_qhead := q @ [interface]\<rparr>
               in (case bbl_interface_set_kernel_info os interface s of
                     (Inl e, interface, s) \<Rightarrow> (Inl e, s\<lparr>interface_qhead := q @ [interface]\<rparr>)
                   | (Inr _, interface, s) \<Rightarrow>
                       let interface = interface\<lparr>if_config := Some link_config\<rparr>;
                           interface = interface\<lparr>if_io_rx_buf :=
                             (if os_malloc os (os_IO_BUFFER_LEN os)
                              then Some (os_IO_BUFFER_LEN os) else None)\<rparr>;
                           interface = interface\<lparr>if_io_tx_buf :=
                             (if os_malloc os (os_IO_BUFFER_LEN os)
                              then Some (os_IO_BUFFER_LEN os) else None)\<rparr>;
                           interface = interface\<lparr>if_io_mode := lc_io_mode link_config\<rparr>;
                           interface =
                             (if lc_mac_u64 link_config AND 0xffffffffffff00 \<noteq> 0
                              then interface\<lparr>if_mac := take ETH_ADDR_LEN (lc_mac link_config)\<rparr>
                              else interface);
                           s = s\<lparr>interface_qhead := q @ [interface]\<rparr>
                       in if \<not> os_bbl_lag_interface_add os interface link_config
                          then (Inl Lag_interface_add_failed, s)
                          else if \<not> os_bbl_io_add_interface os interface
                          then (Inl Io_add_interface_failed, s)
                          else
                            let interface = interface\<lparr>if_rate_job := Some (length (timer_root s))\<rparr>;
                                s = s\<lparr>interface_qhead := q @ [interface],
                                      timer_root := timer_root s @
                                        [\<lparr>timer_name = ''Rate Computation'', timer_sec = 1,
                                          timer_nsec = 0, timer_periodic = True,
                                          timer_data = length q,
                                          timer_callback = Bbl_interface_rate_job\<rparr>]\<rparr>
                            in (Inr interface, s)))"

text \<open>\<open>bbl_interface_get\<close>: the first interface of the queue with the name, or \<open>NULL\<close>.\<close>

definition bbl_interface_get :: "string \<Rightarrow> bbl_state \<Rightarrow> bbl_interface_s option" where
  "bbl_interface_get interface_name s =
     find (\<lambda>interface. if_name interface = interface_name) (interface_qhead s)"

text \<open>
  The static \<open>bbl_interface_init\<close> (the first of the two functions of that name in the
  file): the loop over the configured links. \<open>bbl_interface_init_loop\<close> is the
  \<open>while\<close> loop from a given \<open>link_config\<close> on.
\<close>

fun bbl_interface_init_loop ::
  "os_s \<Rightarrow> bbl_link_config_s list \<Rightarrow> bbl_state \<Rightarrow> (error + unit) \<times> bbl_state" where
  "bbl_interface_init_loop os [] s = (Inr (), s)"
| "bbl_interface_init_loop os (link_config # next) s =
     (if bbl_interface_get (lc_interface link_config) s \<noteq> None
      then (Inl Duplicate_link, LOG (Log_duplicate_link (lc_interface link_config)) s)
      else
        case bbl_interface_add os (lc_interface link_config) link_config s of
          (Inl e, s) \<Rightarrow> (Inl e, LOG (Log_add_link_failed (lc_interface link_config)) s)
        | (Inr interface, s) \<Rightarrow> bbl_interface_init_loop os next s)"

definition bbl_interface_init :: "os_s \<Rightarrow> bbl_state \<Rightarrow> (error + unit) \<times> bbl_state" where
  "bbl_interface_init os s = bbl_interface_init_loop os (config_link_config s) s"

text \<open>The number of interfaces of a name in the registry.\<close>

definition registered :: "string \<Rightarrow> bbl_state \<Rightarrow> nat" where
  "registered interface_name s =
     length (filter (\<lambda>interface. if_name interface = interface_name) (interface_qhead s))"

subsection \<open>What a lock file says\<close>

text \<open>
  What an existing lock file can say, with the tests of the code. The holder is alive:
  the file gives the process identifier 1, or one greater than 1 for which \<open>stat\<close>
  of \<open>/proc/<pid>\<close> does not fail with \<open>ENOENT\<close> (for process 1, which always
  exists, the code does not look). The holder is gone: the identifier is greater than 1
  and \<open>stat\<close> fails with \<open>ENOENT\<close>. The file is invalid: \<open>fscanf\<close> converts
  nothing, or the number is not greater than 1; this is the branch of the message
  \<open>Invalid interface lock file\<close>.
\<close>

definition lock_holder_alive :: "os_s \<Rightarrow> string \<Rightarrow> bbl_state \<Rightarrow> bool" where
  "lock_holder_alive os interface_name s =
     (case fs s (lock_path_of os interface_name) of
        None \<Rightarrow> False
      | Some content \<Rightarrow>
          (case scanf_d content of
             None \<Rightarrow> False
           | Some lock_pid \<Rightarrow>
               lock_pid = 1
               \<or> (1 < lock_pid
                  \<and> os_stat os (snprintf (os_FILE_PATH_LEN os) (''/proc/'' @ printf_d lock_pid))
                      \<noteq> Some ENOENT)))"

definition lock_holder_gone :: "os_s \<Rightarrow> string \<Rightarrow> bbl_state \<Rightarrow> bool" where
  "lock_holder_gone os interface_name s =
     (case fs s (lock_path_of os interface_name) of
        None \<Rightarrow> False
      | Some content \<Rightarrow>
          (case scanf_d content of
             None \<Rightarrow> False
           | Some lock_pid \<Rightarrow>
               1 < lock_pid
               \<and> os_stat os (snprintf (os_FILE_PATH_LEN os) (''/proc/'' @ printf_d lock_pid))
                   = Some ENOENT))"

definition lock_file_invalid :: "os_s \<Rightarrow> string \<Rightarrow> bbl_state \<Rightarrow> bool" where
  "lock_file_invalid os interface_name s =
     (case fs s (lock_path_of os interface_name) of
        None \<Rightarrow> False
      | Some content \<Rightarrow>
          (case scanf_d content of
             None \<Rightarrow> True
           | Some lock_pid \<Rightarrow> \<not> 1 < lock_pid))"

section \<open>Values for evaluation\<close>

text \<open>
  A machine whose kernel knows the device \<open>eth0\<close>, where the code runs as process
  4711 and process 4242 is alive too, and a state with nothing registered.
\<close>

definition example_os :: os_s where
  "example_os =
     \<lparr>os_FILE_PATH_LEN = 128, os_IO_BUFFER_LEN = 2048, os_IO_MODE_DPDK = 3,
      os_getpid = 4711,
      os_stat = (\<lambda>path. if path = ''/proc/4242'' \<or> path = ''/proc/4711'' then None
                        else Some ENOENT),
      os_fopen_w = (\<lambda>path. True),
      os_remove = (\<lambda>path. True),
      os_calloc = (\<lambda>name. True),
      os_malloc = (\<lambda>n. True),
      os_ioctl_SIOCGIFHWADDR =
        (\<lambda>name. if name = ''eth0'' then Some [2, 0, 0, 0, 0, 1, 0, 0, 0, 0, 0, 0, 0, 0] else None),
      os_ioctl_SIOCGIFINDEX = (\<lambda>name. if name = ''eth0'' then Some 2 else None),
      os_bbl_lag_interface_add = (\<lambda>interface link_config. True),
      os_bbl_io_add_interface = (\<lambda>interface. True)\<rparr>"

definition example_state :: bbl_state where
  "example_state =
     \<lparr>interface_qhead = [], pcap_index = 0, config_interface_lock_force = False,
      config_link_config = [], timer_root = [], fs = Map.empty, bbl_log = []\<rparr>"

definition example_link :: "string \<Rightarrow> io_mode_t \<Rightarrow> bbl_link_config_s" where
  "example_link interface_name mode =
     \<lparr>lc_interface = interface_name, lc_io_mode = mode, lc_mac = replicate 6 0, lc_mac_u64 = 0\<rparr>"

text \<open>
  The same state with a lock file for \<open>eth0\<close> of a given content, the same with the
  lock forced by the configuration, and the same machine where no file can be opened
  for writing.
\<close>

definition example_lock_file :: "string \<Rightarrow> bbl_state" where
  "example_lock_file content =
     example_state\<lparr>fs := [''/run/lock/bngblaster_eth0.lock'' \<mapsto> content]\<rparr>"

definition example_lock_file_forced :: "string \<Rightarrow> bbl_state" where
  "example_lock_file_forced content =
     (example_lock_file content)\<lparr>config_interface_lock_force := True\<rparr>"

definition example_os_no_write :: os_s where
  "example_os_no_write = example_os\<lparr>os_fopen_w := (\<lambda>path. False)\<rparr>"



text \<open>A small memory for evaluation: one interface, one adjacency bound to it.\<close>

definition example_netif :: "32 word bbl_network_interface_s" where
  "example_netif = \<lparr>ni_name = ''eth0'', ni_send_requests = 5, ni_ldp_adjacency = Some 0\<rparr>"

definition example_adjacency :: ldp_adjacency_s where
  "example_adjacency =
     \<lparr>adj_next = None, adj_instance = Some 0, adj_interface = Some 7,
      adj_hello_timer = Some 0, adj_state = HELLO_ACTIVE\<rparr>"

definition example_hello_timer :: timer_s where
  "example_hello_timer =
     \<lparr>timer_name = ''LDP hello'', timer_sec = 5, timer_nsec = 0, timer_periodic = True,
      timer_data = 0, timer_callback = Ldp_interface_hello_job\<rparr>"

definition example_world :: "(32 word, unit) ldp_world" where
  "example_world =
     \<lparr>netifs = [7 \<mapsto> example_netif],
      adjacencies = [example_adjacency],
      instances = [0 \<mapsto> \<lparr>inst_config = \<lparr>ldp_hello_interval = 5\<rparr>, inst_adjacencies = Some 0\<rparr>],
      ldp_timer_root = [example_hello_timer],
      ldp_log = []\<rparr>"

text \<open>The same memory before the instance is attached to the interface.\<close>

definition example_world_unattached :: "(32 word, unit) ldp_world" where
  "example_world_unattached =
     \<lparr>netifs = [7 \<mapsto> example_netif\<lparr>ni_ldp_adjacency := None\<rparr>],
      adjacencies = [],
      instances = [0 \<mapsto> \<lparr>inst_config = \<lparr>ldp_hello_interval = 5\<rparr>, inst_adjacencies = None\<rparr>],
      ldp_timer_root = [],
      ldp_log = []\<rparr>"


section \<open>Properties of the Hello job\<close>

lemma hello_job_Some_iff:
  "(\<exists>w'. ldp_interface_hello_job flag timer w = Some w') \<longleftrightarrow>
   (\<exists>b. bound_interface w (timer_data timer) = Some b)"
  by (auto simp: ldp_interface_hello_job_def bound_interface_def split: option.splits)

lemma hello_job_result:
  assumes "bound_interface w (timer_data timer) = Some (i, interface)"
  shows "ldp_interface_hello_job flag timer w =
    Some (w\<lparr>netifs := (netifs w)(i \<mapsto> interface
      \<lparr>ni_send_requests := ni_send_requests interface OR flag\<rparr>)\<rparr>)"
  using assms
  by (auto simp: ldp_interface_hello_job_def bound_interface_def split: option.splits)

lemma hello_job_bound_after:
  assumes "bound_interface w (timer_data timer) = Some (i, interface)"
    and "ldp_interface_hello_job flag timer w = Some w'"
  shows "bound_interface w' (timer_data timer) =
    Some (i, interface\<lparr>ni_send_requests := ni_send_requests interface OR flag\<rparr>)"
  using assms
  by (auto simp: ldp_interface_hello_job_def bound_interface_def adjacency_at_def
      split: option.splits if_splits)

lemma hello_job_idem:
  assumes "ldp_interface_hello_job flag timer w = Some w'"
  shows "ldp_interface_hello_job flag timer w' = Some w'"
proof -
  from assms obtain i interface
    where b: "bound_interface w (timer_data timer) = Some (i, interface)"
    using hello_job_Some_iff [of flag timer w] by auto
  have w': "w' = w\<lparr>netifs := (netifs w)(i \<mapsto> interface
      \<lparr>ni_send_requests := ni_send_requests interface OR flag\<rparr>)\<rparr>"
    using hello_job_result [OF b, of flag] assms by simp
  have "ldp_interface_hello_job flag timer w' =
    Some (w'\<lparr>netifs := (netifs w')(i \<mapsto> interface
      \<lparr>ni_send_requests := ni_send_requests interface OR flag,
       ni_send_requests := (ni_send_requests interface OR flag) OR flag\<rparr>)\<rparr>)"
    using hello_job_result [OF hello_job_bound_after [OF b assms], of flag] by simp
  also have "\<dots> = Some w'"
    by (simp add: w' or.assoc)
  finally show ?thesis .
qed

lemma hello_timer_fires_fixed:
  assumes "ldp_interface_hello_job flag timer w = Some w"
  shows "hello_timer_fires k flag timer w = Some w"
  using assms by (induction k) simp_all

text \<open>
  Claim C2. For every adjacency that is bound to an interface and every number
  \<open>k \<ge> 1\<close> of Hello-timer firings with nothing clearing the flag in between, the
  \<open>k\<close> firings return, and the memory after them is the memory after the first one:
  the request is a bit pattern or-ed into the interface's \<open>send_requests\<close> word, it is
  set after the firings, and firing again changes nothing (the update is idempotent).
  The firings are not counted or queued.
\<close>

theorem hello_requests_coalesce:
  assumes "bound_interface w (timer_data timer) = Some (i, interface)" and "1 \<le> k"
  shows "\<exists>w1 interface'.
      ldp_interface_hello_job flag timer w = Some w1
    \<and> hello_timer_fires k flag timer w = Some w1
    \<and> ldp_interface_hello_job flag timer w1 = Some w1
    \<and> bound_interface w1 (timer_data timer) = Some (i, interface')
    \<and> ni_send_requests interface' = ni_send_requests interface OR flag
    \<and> ni_send_requests interface' AND flag = flag"
proof -
  let ?interface' = "interface\<lparr>ni_send_requests := ni_send_requests interface OR flag\<rparr>"
  let ?w1 = "w\<lparr>netifs := (netifs w)(i \<mapsto> ?interface')\<rparr>"
  have job: "ldp_interface_hello_job flag timer w = Some ?w1"
    by (rule hello_job_result [OF assms(1)])
  from assms(2) obtain k' where k: "k = Suc k'"
    by (cases k) auto
  have idem: "ldp_interface_hello_job flag timer ?w1 = Some ?w1"
    by (rule hello_job_idem [OF job])
  have fires: "hello_timer_fires k flag timer w = Some ?w1"
    by (simp add: k job hello_timer_fires_fixed [OF idem])
  have bound: "bound_interface ?w1 (timer_data timer) = Some (i, ?interface')"
    by (rule hello_job_bound_after [OF assms(1) job])
  have "(ni_send_requests interface OR flag) AND flag = flag"
    by (simp add: bit_eq_iff bit_and_iff bit_or_iff)
  with job fires idem bound show ?thesis
    by simp
qed

theorem hello_requests_coalesce_witness:
  "ldp_interface_hello_job 8 example_hello_timer example_world =
     Some (example_world\<lparr>netifs := [7 \<mapsto> example_netif\<lparr>ni_send_requests := 13\<rparr>]\<rparr>)
   \<and> hello_timer_fires 3 8 example_hello_timer example_world =
     Some (example_world\<lparr>netifs := [7 \<mapsto> example_netif\<lparr>ni_send_requests := 13\<rparr>]\<rparr>)"
proof -
  have b: "bound_interface example_world (timer_data example_hello_timer) =
      Some (7, example_netif)"
    by (simp add: bound_interface_def adjacency_at_def example_world_def
        example_hello_timer_def example_adjacency_def)
  have k: "(1::nat) \<le> 3" by simp
  have job: "ldp_interface_hello_job 8 example_hello_timer example_world =
     Some (example_world\<lparr>netifs := [7 \<mapsto> example_netif\<lparr>ni_send_requests := 13\<rparr>]\<rparr>)"
    using hello_job_result [OF b, of 8] by (simp add: example_world_def example_netif_def)
  from hello_requests_coalesce [OF b k, of 8] job show ?thesis
    by auto
qed

text \<open>
  Claim C8. A firing of the Hello timer of an adjacency that is bound to an interface
  returns, transmits nothing and changes one thing only: the Hello-request bits of
  \<open>send_requests\<close> on that interface. The adjacencies (the state of this one among
  them), the instances, the timers and the log are as before, so are all other
  interfaces, and on the bound interface the name, the adjacency reference, every
  field outside the source and the other bits of \<open>send_requests\<close> are as before.
\<close>

theorem hello_job_frame:
  assumes "bound_interface w (timer_data timer) = Some (i, interface)"
  shows "\<exists>w' interface'.
      ldp_interface_hello_job flag timer w = Some w'
    \<and> w' = w\<lparr>netifs := (netifs w)(i \<mapsto> interface')\<rparr>
    \<and> interface' = interface\<lparr>ni_send_requests := ni_send_requests interface'\<rparr>
    \<and> ni_send_requests interface' AND NOT flag = ni_send_requests interface AND NOT flag
    \<and> ni_send_requests interface' AND flag = flag
    \<and> adjacencies w' = adjacencies w
    \<and> adjacency_at w' (timer_data timer) = adjacency_at w (timer_data timer)
    \<and> instances w' = instances w
    \<and> ldp_timer_root w' = ldp_timer_root w
    \<and> ldp_log w' = ldp_log w"
proof -
  define interface' where
    "interface' = interface\<lparr>ni_send_requests := ni_send_requests interface OR flag\<rparr>"
  define w' where "w' = w\<lparr>netifs := (netifs w)(i \<mapsto> interface')\<rparr>"
  have job: "ldp_interface_hello_job flag timer w = Some w'"
    using hello_job_result [OF assms, of flag] by (simp add: w'_def interface'_def)
  have bits: "ni_send_requests interface' AND NOT flag = ni_send_requests interface AND NOT flag"
    "ni_send_requests interface' AND flag = flag"
    by (auto simp: interface'_def bit_eq_iff bit_and_iff bit_or_iff bit_not_iff)
  have same: "interface' = interface\<lparr>ni_send_requests := ni_send_requests interface'\<rparr>"
    by (simp add: interface'_def)
  have rest: "adjacencies w' = adjacencies w"
    "adjacency_at w' (timer_data timer) = adjacency_at w (timer_data timer)"
    "instances w' = instances w" "ldp_timer_root w' = ldp_timer_root w" "ldp_log w' = ldp_log w"
    by (simp_all add: w'_def adjacency_at_def)
  from job bits same rest w'_def show ?thesis
    by blast
qed

theorem hello_job_frame_witness:
  "ldp_interface_hello_job 8 example_hello_timer example_world =
     Some (example_world\<lparr>netifs := [7 \<mapsto> example_netif\<lparr>ni_send_requests := 13\<rparr>]\<rparr>)
   \<and> adjacencies (example_world\<lparr>netifs := [7 \<mapsto> example_netif\<lparr>ni_send_requests := 13\<rparr>]\<rparr>) =
     [example_adjacency]"
proof -
  have b: "bound_interface example_world (timer_data example_hello_timer) =
      Some (7, example_netif)"
    by (simp add: bound_interface_def adjacency_at_def example_world_def
        example_hello_timer_def example_adjacency_def)
  have job: "ldp_interface_hello_job 8 example_hello_timer example_world =
     Some (example_world\<lparr>netifs := [7 \<mapsto> example_netif\<lparr>ni_send_requests := 13\<rparr>]\<rparr>)"
    using hello_job_result [OF b, of 8] by (simp add: example_world_def example_netif_def)
  have a: "adjacencies example_world = [example_adjacency]"
    by (simp add: example_world_def)
  from hello_job_frame [OF b, of 8] job a show ?thesis
    by auto
qed

section \<open>Properties of the attachment\<close>

lemma init_without_memory:
  "ldp_interface_init False interface interface_config instance w = None"
  by (simp add: ldp_interface_init_def calloc_adjacency_def Let_def split: option.splits)

lemma init_result:
  assumes "instances w instance = Some inst" and "netifs w interface = Some ifc"
  shows "ldp_interface_init True interface interface_config instance w =
    Some (True, w
      \<lparr>ldp_log := ldp_log w @
         [Log_ldp_add_interface (ni_name ifc) (ldp_instance_id interface_config)],
       adjacencies := adjacencies w @
         [\<lparr>adj_next = inst_adjacencies inst, adj_instance = Some instance,
           adj_interface = Some interface,
           adj_hello_timer = Some (length (ldp_timer_root w)), adj_state = HELLO_ACTIVE\<rparr>],
       instances := (instances w)(instance \<mapsto>
         inst\<lparr>inst_adjacencies := Some (length (adjacencies w))\<rparr>),
       netifs := (netifs w)(interface \<mapsto>
         ifc\<lparr>ni_ldp_adjacency := Some (length (adjacencies w))\<rparr>),
       ldp_timer_root := ldp_timer_root w @
         [\<lparr>timer_name = ''LDP hello'', timer_sec = ldp_hello_interval (inst_config inst),
           timer_nsec = 0, timer_periodic = True, timer_data = length (adjacencies w),
           timer_callback = Ldp_interface_hello_job\<rparr>]\<rparr>)"
  using assms
  by (simp add: ldp_interface_init_def calloc_adjacency_def Let_def ldp_hello_start_def
      adjacency_at_def ldp_adjacency_zero_def)


text \<open>
  Claim C7. Attaching an instance to an interface, both existing and with memory for
  the adjacency, returns true and allocates exactly one adjacency: the store of
  adjacencies is the old one with the new adjacency appended. The new adjacency is the
  head of the instance's collection and its \<open>next\<close> is the old head; it refers to the
  instance and to the interface; the interface refers back to it; and one periodic
  Hello timer with the adjacency as its data is added to the timers.
\<close>

theorem attach_creates_adjacency:
  assumes "instances w instance = Some inst" and "netifs w interface = Some ifc"
  shows "\<exists>w' adjacency.
      ldp_interface_init True interface interface_config instance w = Some (True, w')
    \<and> adjacencies w' = adjacencies w @ [adjacency]
    \<and> instances w' = (instances w)(instance \<mapsto>
          inst\<lparr>inst_adjacencies := Some (length (adjacencies w))\<rparr>)
    \<and> adj_next adjacency = inst_adjacencies inst
    \<and> adj_instance adjacency = Some instance
    \<and> adj_interface adjacency = Some interface
    \<and> netifs w' = (netifs w)(interface \<mapsto>
          ifc\<lparr>ni_ldp_adjacency := Some (length (adjacencies w))\<rparr>)
    \<and> adj_hello_timer adjacency = Some (length (ldp_timer_root w))
    \<and> ldp_timer_root w' = ldp_timer_root w @
          [\<lparr>timer_name = ''LDP hello'', timer_sec = ldp_hello_interval (inst_config inst),
            timer_nsec = 0, timer_periodic = True, timer_data = length (adjacencies w),
            timer_callback = Ldp_interface_hello_job\<rparr>]"
  by (simp add: init_result [OF assms])

theorem attach_creates_adjacency_witness:
  "ldp_interface_init True 7 \<lparr>ldp_instance_id = 1\<rparr> 0 example_world_unattached =
     Some (True, example_world\<lparr>ldp_log := [Log_ldp_add_interface ''eth0'' 1]\<rparr>)"
proof -
  have i: "instances example_world_unattached 0 =
      Some \<lparr>inst_config = \<lparr>ldp_hello_interval = 5\<rparr>, inst_adjacencies = None\<rparr>"
    and n: "netifs example_world_unattached 7 = Some (example_netif\<lparr>ni_ldp_adjacency := None\<rparr>)"
    by (simp_all add: example_world_unattached_def)
  from attach_creates_adjacency [OF i n, of "\<lparr>ldp_instance_id = 1\<rparr>"]
  obtain w' adjacency where
    r: "ldp_interface_init True 7 \<lparr>ldp_instance_id = 1\<rparr> 0 example_world_unattached =
      Some (True, w')"
    by blast
  have "w' = example_world\<lparr>ldp_log := [Log_ldp_add_interface ''eth0'' 1]\<rparr>"
    using r init_result [OF i n, of "\<lparr>ldp_instance_id = 1\<rparr>"]
    by (simp add: example_world_unattached_def example_world_def example_netif_def
        example_adjacency_def example_hello_timer_def)
  with r show ?thesis by simp
qed

lemma hello_job_adjacencies:
  "ldp_interface_hello_job flag timer w = Some w' \<Longrightarrow> adjacencies w' = adjacencies w"
  by (auto simp: ldp_interface_hello_job_def split: option.splits)

lemma event_step_keeps_state:
  assumes "ldp_event_step flag e w = Some w'"
    and "e \<noteq> Peer_hello_received a"
    and "adjacency_state w a = Some st"
    and "st \<noteq> OPERATIONAL"
  shows "adjacency_state w' a = Some st"
proof (cases e)
  case (Hello_timer_fired t)
  with assms(1) have "adjacencies w' = adjacencies w"
    by (auto dest: hello_job_adjacencies split: if_splits)
  with assms(3) show ?thesis
    by (auto simp: adjacency_state_def adjacency_at_def split: if_splits)
next
  case (Peer_hello_received b)
  with assms(2) have "b \<noteq> a" by simp
  with assms(1,3) Peer_hello_received show ?thesis
    by (auto simp: ldp_peer_hello_def adjacency_state_def adjacency_at_def
        split: option.splits if_splits)
next
  case (Hold_timer_expired b)
  with assms(1,3,4) show ?thesis
    by (cases "b = a")
      (auto simp: ldp_hold_expired_def adjacency_state_def adjacency_at_def
        split: option.splits if_splits)
qed

lemma events_keep_state:
  assumes "ldp_events flag es w = Some w'"
    and "Peer_hello_received a \<notin> set es"
    and "adjacency_state w a = Some st"
    and "st \<noteq> OPERATIONAL"
  shows "adjacency_state w' a = Some st"
  using assms
proof (induction es arbitrary: w)
  case Nil
  then show ?case by simp
next
  case (Cons e es)
  from Cons.prems(1) obtain w1 where
    step: "ldp_event_step flag e w = Some w1" and rest: "ldp_events flag es w1 = Some w'"
    by (auto split: option.splits)
  from Cons.prems(2) have "e \<noteq> Peer_hello_received a" and no: "Peer_hello_received a \<notin> set es"
    by auto
  from event_step_keeps_state [OF step this(1) Cons.prems(3,4)]
  have "adjacency_state w1 a = Some st" .
  from Cons.IH [OF rest no this Cons.prems(4)] show ?case .
qed

lemma peer_hello_from_hello_active:
  assumes "adjacency_state w a = Some HELLO_ACTIVE"
  shows "\<exists>w'. ldp_event_step flag (Peer_hello_received a) w = Some w'
    \<and> adjacency_state w' a = Some OPERATIONAL"
  using assms
  by (auto simp: ldp_peer_hello_def adjacency_state_def adjacency_at_def
      split: option.splits if_splits)

text \<open>
  Claim C3. An adjacency is \<open>DOWN\<close> as it comes from \<open>calloc\<close>, and it is
  \<open>HELLO_ACTIVE\<close> when the attachment returns, before any timer has fired. From
  there no sequence of events without a peer Hello for this adjacency (firings of
  Hello timers, expiries of hold timers, peer Hellos for other adjacencies) changes
  its state, so it is never \<open>OPERATIONAL\<close> by itself; a peer Hello for it makes it
  \<open>OPERATIONAL\<close>.
\<close>

theorem adjacency_state_machine:
  assumes "instances w instance = Some inst" and "netifs w interface = Some ifc"
  shows "adjacency_state (snd (calloc_adjacency True w)) (length (adjacencies w)) = Some DOWN
    \<and> (\<exists>w1. ldp_interface_init True interface interface_config instance w = Some (True, w1)
         \<and> adjacency_state w1 (length (adjacencies w)) = Some HELLO_ACTIVE
         \<and> (\<forall>es w2. Peer_hello_received (length (adjacencies w)) \<notin> set es
               \<and> ldp_events flag es w1 = Some w2
               \<longrightarrow> adjacency_state w2 (length (adjacencies w)) = Some HELLO_ACTIVE)
         \<and> (\<exists>w2. ldp_event_step flag (Peer_hello_received (length (adjacencies w))) w1 = Some w2
               \<and> adjacency_state w2 (length (adjacencies w)) = Some OPERATIONAL))"
proof -
  let ?a = "length (adjacencies w)"
  have down: "adjacency_state (snd (calloc_adjacency True w)) ?a = Some DOWN"
    by (simp add: calloc_adjacency_def adjacency_state_def adjacency_at_def
        ldp_adjacency_zero_def)
  obtain w1 where init: "ldp_interface_init True interface interface_config instance w =
      Some (True, w1)"
    and active: "adjacency_state w1 ?a = Some HELLO_ACTIVE"
    using init_result [OF assms, of interface_config]
    by (simp add: adjacency_state_def adjacency_at_def)
  have quiet: "\<forall>es w2. Peer_hello_received ?a \<notin> set es \<and> ldp_events flag es w1 = Some w2
      \<longrightarrow> adjacency_state w2 ?a = Some HELLO_ACTIVE"
    using events_keep_state [OF _ _ active] by blast
  from down init active quiet peer_hello_from_hello_active [OF active, of flag]
  show ?thesis by blast
qed

theorem adjacency_state_machine_witness:
  "\<exists>w1 w2.
     ldp_interface_init True 7 \<lparr>ldp_instance_id = 1\<rparr> 0 example_world_unattached = Some (True, w1)
   \<and> adjacency_state w1 0 = Some HELLO_ACTIVE
   \<and> ldp_events (8 :: 32 word)
        [Hello_timer_fired 0, Hold_timer_expired 0, Hello_timer_fired 0] w1 = Some w2
   \<and> adjacency_state w2 0 = Some HELLO_ACTIVE"
proof -
  have i: "instances example_world_unattached 0 =
      Some \<lparr>inst_config = \<lparr>ldp_hello_interval = 5\<rparr>, inst_adjacencies = None\<rparr>"
    and n: "netifs example_world_unattached 7 = Some (example_netif\<lparr>ni_ldp_adjacency := None\<rparr>)"
    and a: "length (adjacencies example_world_unattached) = 0"
    by (simp_all add: example_world_unattached_def)
  from adjacency_state_machine [OF i n, of "\<lparr>ldp_instance_id = 1\<rparr>" "8 :: 32 word"]
  obtain w1 where
    r: "ldp_interface_init True 7 \<lparr>ldp_instance_id = 1\<rparr> 0 example_world_unattached =
      Some (True, w1)"
    and active: "adjacency_state w1 0 = Some HELLO_ACTIVE"
    and quiet: "\<forall>es w2. Peer_hello_received 0 \<notin> set es \<and> ldp_events 8 es w1 = Some w2
      \<longrightarrow> adjacency_state w2 0 = Some HELLO_ACTIVE"
    unfolding a by blast
  have "\<exists>w2. ldp_events (8 :: 32 word)
      [Hello_timer_fired 0, Hold_timer_expired 0, Hello_timer_fired 0] w1 = Some w2"
    using r init_result [OF i n, of "\<lparr>ldp_instance_id = 1\<rparr>"]
    by (auto simp: example_world_unattached_def example_netif_def ldp_interface_hello_job_def
        ldp_hold_expired_def adjacency_at_def)
  then obtain w2 where run: "ldp_events (8 :: 32 word)
      [Hello_timer_fired 0, Hold_timer_expired 0, Hello_timer_fired 0] w1 = Some w2"
    by blast
  have "Peer_hello_received 0 \<notin> set [Hello_timer_fired 0, Hold_timer_expired 0, Hello_timer_fired 0]"
    by simp
  with quiet run have "adjacency_state w2 0 = Some HELLO_ACTIVE"
    by blast
  with r active run show ?thesis
    by blast
qed

section \<open>Properties of registration\<close>

subsection \<open>The decimal conversions\<close>

text \<open>
  What \<open>printf_d\<close> writes for a number of the non-negative range of \<open>int\<close>,
  \<open>scanf_d\<close> reads back as that number.
\<close>

lemma digit_char_props:
  assumes "d < 10"
  shows "isdigit (digit_char d)" and "\<not> isspace (digit_char d)"
    and "digit_char d \<noteq> CHR ''-''" and "digit_char d \<noteq> CHR ''+''"
    and "int (of_char (digit_char d)) - 48 = int d"
proof -
  from assms have "d \<in> {0, 1, 2, 3, 4, 5, 6, 7, 8, 9}"
    by auto
  then show "isdigit (digit_char d)" and "\<not> isspace (digit_char d)"
    and "digit_char d \<noteq> CHR ''-''" and "digit_char d \<noteq> CHR ''+''"
    and "int (of_char (digit_char d)) - 48 = int d"
    by (auto simp: digit_char_def isdigit_def isspace_def)
qed

lemma digits_value_snoc:
  "digits_value (ds @ [c]) = 10 * digits_value ds + (int (of_char c) - 48)"
  by (simp add: digits_value_def)

lemma dec_nat_digits:
  "dec_nat n \<noteq> [] \<and> (\<forall>c \<in> set (dec_nat n). isdigit c)
   \<and> \<not> isspace (hd (dec_nat n)) \<and> hd (dec_nat n) \<noteq> CHR ''-'' \<and> hd (dec_nat n) \<noteq> CHR ''+''
   \<and> digits_value (dec_nat n) = int n"
proof (induction n rule: dec_nat.induct)
  case (1 n)
  show ?case
  proof (cases "n < 10")
    case True
    then have eq: "dec_nat n = [digit_char n]"
      by (subst dec_nat.simps) simp
    show ?thesis
      unfolding eq using digit_char_props [OF True] by (simp add: digits_value_def)
  next
    case False
    then have eq: "dec_nat n = dec_nat (n div 10) @ [digit_char (n mod 10)]"
      by (subst dec_nat.simps) simp
    have m: "n mod 10 < 10" by simp
    have v: "10 * int (n div 10) + int (n mod 10) = int n"
      by (metis mult_div_mod_eq of_nat_add of_nat_mult of_nat_numeral)
    from "1.IH" [OF False] have ih: "dec_nat (n div 10) \<noteq> []"
      "\<forall>c \<in> set (dec_nat (n div 10)). isdigit c"
      "\<not> isspace (hd (dec_nat (n div 10)))"
      "hd (dec_nat (n div 10)) \<noteq> CHR ''-''" "hd (dec_nat (n div 10)) \<noteq> CHR ''+''"
      "digits_value (dec_nat (n div 10)) = int (n div 10)"
      by simp_all
    show ?thesis
      unfolding eq using ih digit_char_props [OF m] v
      by (simp add: digits_value_snoc)
  qed
qed

lemma scanf_printf_nat:
  assumes "n < 2 ^ 31"
  shows "scanf_d (dec_nat n) = Some (int n)"
proof -
  have d: "dropWhile isspace (dec_nat n) = dec_nat n"
    using dec_nat_digits [of n] by (cases "dec_nat n") auto
  have t: "takeWhile isdigit (dec_nat n) = dec_nat n"
    using dec_nat_digits [of n] by (simp add: takeWhile_eq_all_conv)
  have "int n < 2 ^ 31"
    using assms by (metis of_nat_less_iff of_nat_numeral of_nat_power)
  then have l: "long_to_int (int n) = int n"
    by (simp add: long_to_int_def Let_def max_def min_def)
  show ?thesis
    using dec_nat_digits [of n] by (simp add: scanf_d_def Let_def d t l)
qed

lemma scanf_printf:
  assumes "0 \<le> i" and "i < 2 ^ 31"
  shows "scanf_d (printf_d i) = Some i"
proof -
  have "nat i < 2 ^ 31"
    using assms by (simp add: nat_less_iff)
  from scanf_printf_nat [OF this] assms show ?thesis
    by (simp add: printf_d_def)
qed

subsection \<open>The steps of a registration\<close>

lemma lock_result:
  "bbl_interface_lock os N s = (r, s') \<Longrightarrow>
     interface_qhead s' = interface_qhead s \<and> pcap_index s' = pcap_index s
     \<and> config_interface_lock_force s' = config_interface_lock_force s
     \<and> config_link_config s' = config_link_config s \<and> timer_root s' = timer_root s
     \<and> fs s' = (if isl r then fs s
                 else (fs s)(lock_path_of os N \<mapsto> printf_d (os_getpid os)))
     \<and> r \<in> {Inr (), Inl Lock_in_use, Inl Lock_invalid, Inl Lock_open_failed}"
  by (auto simp: bbl_interface_lock_def Let_def LOG_def split: option.splits if_splits)

lemma kernel_info_result:
  "bbl_interface_set_kernel_info os i s = (r, i', s') \<Longrightarrow>
     if_name i' = if_name i \<and> fs s' = fs s \<and> interface_qhead s' = interface_qhead s
     \<and> timer_root s' = timer_root s \<and> pcap_index s' = pcap_index s
     \<and> config_interface_lock_force s' = config_interface_lock_force s
     \<and> config_link_config s' = config_link_config s"
  by (auto simp: bbl_interface_set_kernel_info_def Let_def LOG_def split: option.splits if_splits)

lemma add_success:
  assumes "bbl_interface_add os N lc s = (Inr i, s')"
  shows "interface_qhead s' = interface_qhead s @ [i] \<and> if_name i = N
     \<and> fs s' = (fs s)(lock_path_of os N \<mapsto> printf_d (os_getpid os))"
  using assms
  apply (simp add: bbl_interface_add_def Let_def split: if_splits prod.splits sum.splits)
  apply (auto dest!: lock_result kernel_info_result simp: bbl_interface_zero_def)
  done

lemma add_kernel_failure:
  assumes "bbl_interface_add os N lc s = (Inl e, s')"
    and "e = Mac_address_error \<or> e = Interface_index_error"
  shows "\<exists>i. interface_qhead s' = interface_qhead s @ [i] \<and> if_name i = N
     \<and> fs s' = (fs s)(lock_path_of os N \<mapsto> printf_d (os_getpid os))"
  using assms
  apply (simp add: bbl_interface_add_def Let_def split: if_splits prod.splits sum.splits)
  apply (auto dest!: lock_result kernel_info_result simp: bbl_interface_zero_def)
  done

lemma init_loop_append:
  "bbl_interface_init_loop os (xs @ ys) s =
     (case bbl_interface_init_loop os xs s of
        (Inl e, s') \<Rightarrow> (Inl e, s')
      | (Inr u, s') \<Rightarrow> bbl_interface_init_loop os ys s')"
  by (induction xs arbitrary: s) (auto split: prod.splits sum.splits)

lemma get_None_iff:
  "bbl_interface_get N s = None \<longleftrightarrow> N \<notin> set (map if_name (interface_qhead s))"
  by (auto simp: bbl_interface_get_def find_None_iff)

lemma filter_name_count:
  "length (filter (\<lambda>x. f x = N) xs) = count_list (map f xs) N"
  by (induction xs) auto

lemma registered_count:
  "registered N s = count_list (map if_name (interface_qhead s)) N"
  by (simp add: registered_def filter_name_count)

lemma count_list_distinct:
  "distinct xs \<Longrightarrow> x \<in> set xs \<Longrightarrow> count_list xs x = 1"
  by (induction xs) (auto simp: count_list_0_iff)

lemma init_loop_success:
  "bbl_interface_init_loop os cs s = (Inr u, s') \<Longrightarrow>
     map if_name (interface_qhead s') = map if_name (interface_qhead s) @ map lc_interface cs
     \<and> distinct (map lc_interface cs)
     \<and> set (map lc_interface cs) \<inter> set (map if_name (interface_qhead s)) = {}"
proof (induction cs arbitrary: s)
  case Nil
  then show ?case by simp
next
  case (Cons c cs)
  from Cons.prems have fresh: "bbl_interface_get (lc_interface c) s = None"
    by (auto split: if_splits)
  with Cons.prems obtain i s1
    where add: "bbl_interface_add os (lc_interface c) c s = (Inr i, s1)"
      and rest: "bbl_interface_init_loop os cs s1 = (Inr u, s')"
    by (auto split: prod.splits sum.splits)
  from add_success [OF add]
  have q1: "map if_name (interface_qhead s1) = map if_name (interface_qhead s) @ [lc_interface c]"
    by simp
  from Cons.IH [OF rest] q1 fresh show ?case
    by (auto simp: get_None_iff)
qed


subsection \<open>The examples, evaluated\<close>

lemmas example_defs = example_os_def example_state_def example_link_def example_lock_file_def
  example_lock_file_forced_def example_os_no_write_def

lemma example_link_simps:
  "lc_interface (example_link interface_name mode) = interface_name"
  "lc_io_mode (example_link interface_name mode) = mode"
  by (simp_all add: example_link_def)

lemma scanf_examples:
  "scanf_d ''4242'' = Some 4242" "scanf_d ''4243'' = Some 4243" "scanf_d ''garbage'' = None"
  by (simp_all add: scanf_d_def isspace_def isdigit_def digits_value_def long_to_int_def)

lemma printf_examples:
  "printf_d 4711 = ''4711''" "printf_d 4242 = ''4242''" "printf_d 4243 = ''4243''"
  by (simp_all add: printf_d_def dec_nat.simps digit_char_def)

lemma example_lock_path:
  "lock_path_of example_os ''eth0'' = ''/run/lock/bngblaster_eth0.lock''"
  "lock_path_of example_os_no_write ''eth0'' = ''/run/lock/bngblaster_eth0.lock''"
  "lock_path_of example_os ''wlan9'' = ''/run/lock/bngblaster_wlan9.lock''"
  by (simp_all add: lock_path_of_def snprintf_def example_os_def example_os_no_write_def)

lemma example_pid:
  "printf_d (os_getpid example_os) = ''4711''"
  by (simp add: example_os_def printf_examples)

lemma example_lock_files:
  "lock_holder_alive example_os ''eth0'' (example_lock_file ''4242'')"
  "lock_holder_alive example_os ''eth0'' (example_lock_file_forced ''4242'')"
  "lock_holder_alive example_os_no_write ''eth0'' (example_lock_file_forced ''4242'')"
  "lock_holder_gone example_os ''eth0'' (example_lock_file ''4243'')"
  "lock_file_invalid example_os ''eth0'' (example_lock_file ''garbage'')"
  "lock_file_invalid example_os ''eth0'' (example_lock_file_forced ''garbage'')"
  by (simp_all add: lock_holder_alive_def lock_holder_gone_def lock_file_invalid_def
      example_defs lock_path_of_def snprintf_def scanf_examples printf_examples ENOENT_def)

lemma example_lock_force:
  "\<not> config_interface_lock_force (example_lock_file content)"
  "config_interface_lock_force (example_lock_file_forced content)"
  by (simp_all add: example_defs)

lemma add_eth0:
  "\<exists>interface s1.
     bbl_interface_add example_os ''eth0'' (example_link ''eth0'' 0) example_state =
       (Inr interface, s1)"
proof -
  have "fst (bbl_interface_add example_os ''eth0'' (example_link ''eth0'' 0) example_state) =
     Inr \<lparr>if_name = ''eth0'', if_pcap_index = 0,
          if_config = Some (example_link ''eth0'' 0),
          if_io_mode = 0, if_io_rx_buf = Some 2048, if_io_tx_buf = Some 2048,
          if_mac = [2, 0, 0, 0, 0, 1], if_ifindex = 2, if_rate_job = Some 0\<rparr>"
    by (simp add: bbl_interface_add_def bbl_interface_lock_def bbl_interface_set_kernel_info_def
        bbl_interface_zero_def example_defs Let_def lock_path_of_def snprintf_def IFNAMSIZ_def
        IFHWADDRLEN_def ETH_ADDR_LEN_def printf_examples LOG_def)
  then show ?thesis
    by (cases "bbl_interface_add example_os ''eth0'' (example_link ''eth0'' 0) example_state")
      auto
qed

lemma add_wlan9:
  "\<exists>s1. bbl_interface_add example_os ''wlan9'' (example_link ''wlan9'' 0) example_state =
     (Inl Mac_address_error, s1)"
proof -
  have "fst (bbl_interface_add example_os ''wlan9'' (example_link ''wlan9'' 0) example_state) =
     Inl Mac_address_error"
    by (simp add: bbl_interface_add_def bbl_interface_lock_def bbl_interface_set_kernel_info_def
        bbl_interface_zero_def example_defs Let_def lock_path_of_def snprintf_def IFNAMSIZ_def
        IFHWADDRLEN_def ETH_ADDR_LEN_def printf_examples LOG_def)
  then show ?thesis
    by (cases "bbl_interface_add example_os ''wlan9'' (example_link ''wlan9'' 0) example_state")
      auto
qed

text \<open>
  Claim C1. When the initialization loop has registered the configured links \<open>cs\<close>
  and one of them has the name \<open>N\<close>, a further link of the name \<open>N\<close> in the
  configuration makes the loop fail at that link with the duplicate-link error, logged
  and returned, and the registry, which had no entry of that name before the loop,
  holds exactly one entry named \<open>N\<close> afterwards.
\<close>

theorem duplicate_link_rejected:
  assumes "bbl_interface_init_loop os cs s = (Inr (), s1)"
    and "c \<in> set cs"
    and "lc_interface c' = lc_interface c"
  shows "bbl_interface_init_loop os (cs @ c' # rest) s =
      (Inl Duplicate_link, LOG (Log_duplicate_link (lc_interface c)) s1)
    \<and> registered (lc_interface c) (LOG (Log_duplicate_link (lc_interface c)) s1) = 1
    \<and> registered (lc_interface c) s = 0"
proof -
  let ?N = "lc_interface c"
  from init_loop_success [OF assms(1)]
  have names: "map if_name (interface_qhead s1) =
      map if_name (interface_qhead s) @ map lc_interface cs"
    and dist: "distinct (map lc_interface cs)"
    and disj: "set (map lc_interface cs) \<inter> set (map if_name (interface_qhead s)) = {}"
    by simp_all
  have mem: "?N \<in> set (map lc_interface cs)"
    using assms(2) by simp
  have "?N \<in> set (map if_name (interface_qhead s1))"
    using mem names by simp
  then have found: "bbl_interface_get (lc_interface c') s1 \<noteq> None"
    using get_None_iff [of ?N s1] assms(3) by simp
  have run: "bbl_interface_init_loop os (cs @ c' # rest) s =
      (Inl Duplicate_link, LOG (Log_duplicate_link ?N) s1)"
    using found assms(1,3) by (simp add: init_loop_append)
  have old: "count_list (map if_name (interface_qhead s)) ?N = 0"
    using mem disj by (auto simp: count_list_0_iff)
  have "registered ?N s1 = 1"
    using count_list_distinct [OF dist mem] old by (simp add: registered_count names)
  then have "registered ?N (LOG (Log_duplicate_link ?N) s1) = 1"
    by (simp add: registered_def LOG_def)
  then show ?thesis
    using run old by (simp add: registered_count)
qed

theorem duplicate_link_rejected_witness:
  "fst (bbl_interface_init_loop example_os
      [example_link ''eth0'' 0, example_link ''eth0'' 0] example_state) = Inl Duplicate_link
   \<and> registered ''eth0'' (snd (bbl_interface_init_loop example_os
      [example_link ''eth0'' 0, example_link ''eth0'' 0] example_state)) = 1"
proof -
  obtain interface s1 where add:
    "bbl_interface_add example_os ''eth0'' (example_link ''eth0'' 0) example_state =
      (Inr interface, s1)"
    using add_eth0 by auto
  have "bbl_interface_get ''eth0'' example_state = None"
    by (simp add: bbl_interface_get_def example_state_def)
  then have first:
    "bbl_interface_init_loop example_os [example_link ''eth0'' 0] example_state = (Inr (), s1)"
    using add by (simp add: example_link_simps)
  have c: "example_link ''eth0'' 0 \<in> set [example_link ''eth0'' 0]"
    by simp
  from duplicate_link_rejected [OF first c refl, of "[]"] show ?thesis
    by (simp add: example_link_simps)
qed





text \<open>
  Claim C10. Registration is not atomic. When \<open>bbl_interface_add\<close> returns failure
  from the kernel-information step (the hardware address query or the index query),
  the interface is already the last entry of the registry and the lock file already
  holds the identifier of the current process; the error return undoes neither.
\<close>

theorem registration_not_rolled_back:
  assumes "bbl_interface_add os N lc s = (Inl e, s')"
    and "e = Mac_address_error \<or> e = Interface_index_error"
  shows "\<exists>interface. interface_qhead s' = interface_qhead s @ [interface]
    \<and> if_name interface = N
    \<and> fs s' (lock_path_of os N) = Some (printf_d (os_getpid os))"
  using add_kernel_failure [OF assms] by auto

theorem registration_not_rolled_back_witness:
  "fst (bbl_interface_add example_os ''wlan9'' (example_link ''wlan9'' 0) example_state) =
      Inl Mac_address_error
   \<and> map if_name (interface_qhead
        (snd (bbl_interface_add example_os ''wlan9'' (example_link ''wlan9'' 0) example_state))) =
      [''wlan9'']
   \<and> fs (snd (bbl_interface_add example_os ''wlan9'' (example_link ''wlan9'' 0) example_state))
        ''/run/lock/bngblaster_wlan9.lock'' = Some ''4711''"
proof -
  obtain s1 where failed:
    "bbl_interface_add example_os ''wlan9'' (example_link ''wlan9'' 0) example_state =
      (Inl Mac_address_error, s1)"
    using add_wlan9 by auto
  from registration_not_rolled_back [OF failed]
  have "map if_name (interface_qhead s1) = [''wlan9'']
      \<and> fs s1 ''/run/lock/bngblaster_wlan9.lock'' = Some ''4711''"
    by (auto simp: example_lock_path example_pid example_state_def)
  then show ?thesis
    by (simp add: failed)
qed

lemma LOG_fields:
  "config_interface_lock_force (LOG entry s) = config_interface_lock_force s"
  "fs (LOG entry s) = fs s"
  "interface_qhead (LOG entry s) = interface_qhead s"
  by (simp_all add: LOG_def)

lemma lock_alive_unforced:
  assumes "lock_holder_alive os N s" and "\<not> config_interface_lock_force s"
  shows "\<exists>e entry. bbl_interface_lock os N s = (Inl e, LOG entry s)
    \<and> (e = Lock_in_use \<or> e = Lock_invalid)"
  using assms
  by (auto simp: lock_holder_alive_def bbl_interface_lock_def Let_def LOG_fields
      split: option.splits)

lemma lock_alive_forced:
  assumes "lock_holder_alive os N s" and "config_interface_lock_force s"
    and "os_fopen_w os (lock_path_of os N)"
  shows "\<exists>entry. bbl_interface_lock os N s =
    (Inr (), (LOG entry s)
       \<lparr>fs := (fs s)(lock_path_of os N \<mapsto> printf_d (os_getpid os))\<rparr>)"
  using assms
  by (auto simp: lock_holder_alive_def bbl_interface_lock_def Let_def LOG_fields
      split: option.splits)

lemma lock_no_file:
  assumes "fs s (lock_path_of os N) = None" and "os_fopen_w os (lock_path_of os N)"
  shows "bbl_interface_lock os N s =
    (Inr (), s\<lparr>fs := (fs s)(lock_path_of os N \<mapsto> printf_d (os_getpid os))\<rparr>)"
  using assms by (simp add: bbl_interface_lock_def Let_def)

lemma lock_gone:
  assumes "lock_holder_gone os N s" and "os_fopen_w os (lock_path_of os N)"
  shows "bbl_interface_lock os N s =
    (Inr (), s\<lparr>fs := (fs s)(lock_path_of os N \<mapsto> printf_d (os_getpid os))\<rparr>)"
  using assms
  by (auto simp: lock_holder_gone_def bbl_interface_lock_def Let_def split: option.splits)

lemma lock_invalid_unforced:
  assumes "lock_file_invalid os N s" and "\<not> config_interface_lock_force s"
  shows "bbl_interface_lock os N s =
    (Inl Lock_invalid, LOG (Log_invalid_lock_file (lock_path_of os N)) s)"
  using assms
  by (auto simp: lock_file_invalid_def bbl_interface_lock_def Let_def LOG_def
      split: option.splits)

lemma lock_invalid_forced:
  assumes "lock_file_invalid os N s" and "config_interface_lock_force s"
    and "os_fopen_w os (lock_path_of os N)"
  shows "bbl_interface_lock os N s =
    (Inr (), (LOG (Log_invalid_lock_file (lock_path_of os N)) s)
       \<lparr>fs := (fs s)(lock_path_of os N \<mapsto> printf_d (os_getpid os))\<rparr>)"
  using assms
  by (auto simp: lock_file_invalid_def bbl_interface_lock_def Let_def LOG_def
      split: option.splits)

text \<open>
  A lock that this process holds is a lock in use: without a release in between, a
  second acquisition by the same process is refused like one by any other process.
\<close>

lemma relock_without_release:
  assumes "bbl_interface_lock os N s = (Inr (), s1)"
    and "1 < os_getpid os" and "os_getpid os < 2 ^ 31"
    and "os_stat os (snprintf (os_FILE_PATH_LEN os) (''/proc/'' @ printf_d (os_getpid os)))
      \<noteq> Some ENOENT"
    and "\<not> config_interface_lock_force s"
  shows "fst (bbl_interface_lock os N s1) = Inl Lock_in_use"
proof -
  have f: "fs s1 (lock_path_of os N) = Some (printf_d (os_getpid os))"
    and c: "\<not> config_interface_lock_force s1"
    using assms(1,5)
    by (auto simp: bbl_interface_lock_def Let_def LOG_def split: option.splits if_splits)
  have "scanf_d (printf_d (os_getpid os)) = Some (os_getpid os)"
    using assms(2,3) by (simp add: scanf_printf)
  with f c assms(2,4) show ?thesis
    by (simp add: bbl_interface_lock_def Let_def LOG_def)
qed

lemma unlock_all_fold_fs:
  "fs (foldl (\<lambda>s interface.
              let lock_path = lock_path_of os (if_name interface)
              in if os_remove os lock_path then s\<lparr>fs := (fs s)(lock_path := None)\<rparr> else s)
        s q) p =
   (if p \<in> set (map (\<lambda>interface. lock_path_of os (if_name interface)) q) \<and> os_remove os p
    then None else fs s p)"
  by (induction q arbitrary: s) (auto simp: Let_def)

lemma unlock_all_fs:
  "fs (bbl_interface_unlock_all os s) p =
   (if p \<in> set (map (\<lambda>interface. lock_path_of os (if_name interface)) (interface_qhead s))
       \<and> os_remove os p
    then None else fs s p)"
  unfolding bbl_interface_unlock_all_def by (rule unlock_all_fold_fs)

lemma add_lock_failure:
  assumes "fst (bbl_interface_lock os N (s\<lparr>pcap_index := pcap_index s + 1\<rparr>)) = Inl e"
  shows "isl (fst (bbl_interface_add os N lc s))
    \<and> interface_qhead (snd (bbl_interface_add os N lc s)) = interface_qhead s"
proof (cases "os_calloc os N")
  case False
  then show ?thesis by (simp add: bbl_interface_add_def LOG_def)
next
  case True
  obtain r s2 where l: "bbl_interface_lock os N (s\<lparr>pcap_index := pcap_index s + 1\<rparr>) = (r, s2)"
    by (cases "bbl_interface_lock os N (s\<lparr>pcap_index := pcap_index s + 1\<rparr>)")
  with assms have r: "r = Inl e" by simp
  from lock_result [OF l] have "interface_qhead s2 = interface_qhead s" by simp
  with True l r show ?thesis
    by (simp add: bbl_interface_add_def Let_def)
qed

lemma kernel_info_errors:
  "fst (bbl_interface_set_kernel_info os i s) \<in>
     {Inr (), Inl Mac_address_error, Inl Interface_index_error}"
  by (simp add: bbl_interface_set_kernel_info_def Let_def split: option.splits)

lemma add_lock_success:
  assumes "fst (bbl_interface_lock os N (s\<lparr>pcap_index := pcap_index s + 1\<rparr>)) = Inr ()"
  shows "fst (bbl_interface_add os N lc s) \<notin>
    {Inl Lock_in_use, Inl Lock_invalid, Inl Lock_open_failed}"
proof (cases "os_calloc os N")
  case False
  then show ?thesis by (simp add: bbl_interface_add_def)
next
  case True
  obtain s2 where l: "bbl_interface_lock os N (s\<lparr>pcap_index := pcap_index s + 1\<rparr>) = (Inr (), s2)"
    using assms by (cases "bbl_interface_lock os N (s\<lparr>pcap_index := pcap_index s + 1\<rparr>)") auto
  let ?i = "bbl_interface_zero\<lparr>if_name := N, if_pcap_index := pcap_index s\<rparr>"
  let ?s = "s2\<lparr>interface_qhead := interface_qhead s2 @ [?i]\<rparr>"
  obtain r i3 s3 where k: "bbl_interface_set_kernel_info os ?i ?s = (r, i3, s3)"
    by (cases "bbl_interface_set_kernel_info os ?i ?s")
  with kernel_info_errors [of os ?i ?s]
  have r: "r = Inr () \<or> r = Inl Mac_address_error \<or> r = Inl Interface_index_error"
    by simp
  show ?thesis
    using True l k r
    by (auto simp: bbl_interface_add_def Let_def split: if_splits)
qed

lemma unlock_all_pcap:
  "fs ((bbl_interface_unlock_all os s)\<lparr>pcap_index := k\<rparr>) = fs (bbl_interface_unlock_all os s)"
  by simp

lemma lock_holder_alive_pcap:
  "lock_holder_alive os N (s\<lparr>pcap_index := k\<rparr>) = lock_holder_alive os N s"
  by (simp add: lock_holder_alive_def)

lemma unlock_all_fold_queue:
  "interface_qhead (foldl (\<lambda>s interface.
              let lock_path = lock_path_of os (if_name interface)
              in if os_remove os lock_path then s\<lparr>fs := (fs s)(lock_path := None)\<rparr> else s)
        s q) = interface_qhead s"
  by (induction q arbitrary: s) (auto simp: Let_def)

lemma unlock_all_queue:
  "interface_qhead (bbl_interface_unlock_all os s) = interface_qhead s"
  unfolding bbl_interface_unlock_all_def by (rule unlock_all_fold_queue)

lemma kernel_info_ok:
  assumes "os_ioctl_SIOCGIFHWADDR os (snprintf IFNAMSIZ (if_name i)) \<noteq> None"
    and "os_ioctl_SIOCGIFINDEX os (snprintf IFNAMSIZ (if_name i)) \<noteq> None"
  shows "\<exists>i'. bbl_interface_set_kernel_info os i s = (Inr (), i', s)"
  using assms
  by (auto simp: bbl_interface_set_kernel_info_def Let_def split: option.splits)

text \<open>
  Registration returns the interface when every step that can fail succeeds.
\<close>

lemma add_returns_interface:
  assumes "os_calloc os N"
    and "fst (bbl_interface_lock os N (s\<lparr>pcap_index := pcap_index s + 1\<rparr>)) = Inr ()"
    and "os_ioctl_SIOCGIFHWADDR os (snprintf IFNAMSIZ N) \<noteq> None"
    and "os_ioctl_SIOCGIFINDEX os (snprintf IFNAMSIZ N) \<noteq> None"
    and "\<forall>i. os_bbl_lag_interface_add os i lc"
    and "\<forall>i. os_bbl_io_add_interface os i"
  shows "\<exists>interface s'. bbl_interface_add os N lc s = (Inr interface, s')"
proof -
  obtain s2 where l: "bbl_interface_lock os N (s\<lparr>pcap_index := pcap_index s + 1\<rparr>) = (Inr (), s2)"
    using assms(2) by (cases "bbl_interface_lock os N (s\<lparr>pcap_index := pcap_index s + 1\<rparr>)") auto
  let ?i = "bbl_interface_zero\<lparr>if_name := N, if_pcap_index := pcap_index s\<rparr>"
  let ?s = "s2\<lparr>interface_qhead := interface_qhead s2 @ [?i]\<rparr>"
  have "if_name ?i = N" by simp
  with kernel_info_ok [of os ?i ?s] assms(3,4)
  obtain i3 where k: "bbl_interface_set_kernel_info os ?i ?s = (Inr (), i3, ?s)"
    by auto
  show ?thesis
    using assms(1,5,6) l k by (simp add: bbl_interface_add_def Let_def)
qed

text \<open>
  The release removes the lock files and leaves the registry as it is, so the
  initialization loop refuses a released name as a duplicate.
\<close>

lemma release_then_loop_duplicate:
  assumes "lc_interface lc \<in> set (map if_name (interface_qhead s))"
  shows "bbl_interface_init_loop os (lc # rest) (bbl_interface_unlock_all os s) =
    (Inl Duplicate_link,
     LOG (Log_duplicate_link (lc_interface lc)) (bbl_interface_unlock_all os s))"
proof -
  have "bbl_interface_get (lc_interface lc) (bbl_interface_unlock_all os s) \<noteq> None"
    using assms get_None_iff [of "lc_interface lc" "bbl_interface_unlock_all os s"]
    by (simp add: unlock_all_queue)
  then show ?thesis by simp
qed

lemma release_then_add:
  assumes "N \<in> set (map if_name (interface_qhead s))"
    and "os_remove os (lock_path_of os N)" and "os_fopen_w os (lock_path_of os N)"
    and "os_calloc os N"
    and "os_ioctl_SIOCGIFHWADDR os (snprintf IFNAMSIZ N) \<noteq> None"
    and "os_ioctl_SIOCGIFINDEX os (snprintf IFNAMSIZ N) \<noteq> None"
    and "\<forall>i. os_bbl_lag_interface_add os i lc"
    and "\<forall>i. os_bbl_io_add_interface os i"
  shows "\<exists>interface s'.
      bbl_interface_add os N lc (bbl_interface_unlock_all os s) = (Inr interface, s')
    \<and> interface_qhead s' = interface_qhead s @ [interface]
    \<and> if_name interface = N
    \<and> fs s' (lock_path_of os N) = Some (printf_d (os_getpid os))"
proof -
  let ?u = "bbl_interface_unlock_all os s"
  have "fs (?u\<lparr>pcap_index := pcap_index ?u + 1\<rparr>) (lock_path_of os N) = None"
    using assms(1,2) by (auto simp: unlock_all_fs)
  from lock_no_file [OF this assms(3)]
  have "fst (bbl_interface_lock os N (?u\<lparr>pcap_index := pcap_index ?u + 1\<rparr>)) = Inr ()"
    by simp
  from add_returns_interface [OF assms(4) this assms(5,6,7,8)]
  obtain interface s' where add: "bbl_interface_add os N lc ?u = (Inr interface, s')"
    by blast
  from add_success [OF add] add show ?thesis
    by (simp add: unlock_all_queue)
qed


text \<open>
  Claim C4, as amended. For every interface name: while the lock file records the
  identifier of a process that is still alive, lock acquisition fails and leaves the
  file alone when lock-force is off, so registration fails and the registry stays as
  it was; when lock-force is set, lock acquisition succeeds and rewrites the file,
  provided the file can be opened for writing. After the lock files of the registered
  interfaces have been removed, lock acquisition for such an interface succeeds again
  under the same proviso, and \<open>bbl_interface_add\<close> registers the name again when its
  other steps (the allocation, the two kernel queries, the LAG and the I/O set-up)
  succeed; the initialization loop, however, refuses the name as a duplicate, because
  the release leaves the interface in the registry.
\<close>

theorem lock_conflict_override_release:
  "(lock_holder_alive os N s \<and> \<not> config_interface_lock_force s \<longrightarrow>
      fst (bbl_interface_lock os N s) \<in> {Inl Lock_in_use, Inl Lock_invalid}
      \<and> fs (snd (bbl_interface_lock os N s)) = fs s
      \<and> isl (fst (bbl_interface_add os N lc s))
      \<and> interface_qhead (snd (bbl_interface_add os N lc s)) = interface_qhead s)
   \<and> (lock_holder_alive os N s \<and> config_interface_lock_force s
        \<and> os_fopen_w os (lock_path_of os N) \<longrightarrow>
      fst (bbl_interface_lock os N s) = Inr ()
      \<and> fs (snd (bbl_interface_lock os N s)) =
          (fs s)(lock_path_of os N \<mapsto> printf_d (os_getpid os)))
   \<and> (N \<in> set (map if_name (interface_qhead s)) \<and> os_remove os (lock_path_of os N)
        \<and> os_fopen_w os (lock_path_of os N) \<longrightarrow>
      fst (bbl_interface_lock os N (bbl_interface_unlock_all os s)) = Inr ()
      \<and> fs (snd (bbl_interface_lock os N (bbl_interface_unlock_all os s)))
          (lock_path_of os N) = Some (printf_d (os_getpid os))
      \<and> fst (bbl_interface_add os N lc (bbl_interface_unlock_all os s)) \<notin>
          {Inl Lock_in_use, Inl Lock_invalid, Inl Lock_open_failed})
   \<and> (N \<in> set (map if_name (interface_qhead s)) \<and> os_remove os (lock_path_of os N)
        \<and> os_fopen_w os (lock_path_of os N) \<and> os_calloc os N
        \<and> os_ioctl_SIOCGIFHWADDR os (snprintf IFNAMSIZ N) \<noteq> None
        \<and> os_ioctl_SIOCGIFINDEX os (snprintf IFNAMSIZ N) \<noteq> None
        \<and> (\<forall>i. os_bbl_lag_interface_add os i lc)
        \<and> (\<forall>i. os_bbl_io_add_interface os i) \<longrightarrow>
      (\<exists>interface s'.
          bbl_interface_add os N lc (bbl_interface_unlock_all os s) = (Inr interface, s')
        \<and> interface_qhead s' = interface_qhead s @ [interface]
        \<and> if_name interface = N
        \<and> fs s' (lock_path_of os N) = Some (printf_d (os_getpid os))))
   \<and> (lc_interface lc = N \<and> N \<in> set (map if_name (interface_qhead s)) \<longrightarrow>
      bbl_interface_init_loop os (lc # rest) (bbl_interface_unlock_all os s) =
        (Inl Duplicate_link, LOG (Log_duplicate_link N) (bbl_interface_unlock_all os s)))"
proof (intro conjI impI)
  assume a: "lock_holder_alive os N s \<and> \<not> config_interface_lock_force s"
  then obtain e entry where l: "bbl_interface_lock os N s = (Inl e, LOG entry s)"
    and e: "e = Lock_in_use \<or> e = Lock_invalid"
    using lock_alive_unforced [of os N s] by auto
  show "fst (bbl_interface_lock os N s) \<in> {Inl Lock_in_use, Inl Lock_invalid}"
    using e by (auto simp: l)
  show "fs (snd (bbl_interface_lock os N s)) = fs s"
    by (simp add: l LOG_def)
  from a obtain e' entry' where
    "bbl_interface_lock os N (s\<lparr>pcap_index := pcap_index s + 1\<rparr>) =
      (Inl e', LOG entry' (s\<lparr>pcap_index := pcap_index s + 1\<rparr>))"
    using lock_alive_unforced [of os N "s\<lparr>pcap_index := pcap_index s + 1\<rparr>"]
    by (auto simp: lock_holder_alive_pcap)
  then have "fst (bbl_interface_lock os N (s\<lparr>pcap_index := pcap_index s + 1\<rparr>)) = Inl e'"
    by simp
  from add_lock_failure [OF this]
  show "isl (fst (bbl_interface_add os N lc s))"
    and "interface_qhead (snd (bbl_interface_add os N lc s)) = interface_qhead s"
    by simp_all
next
  assume a: "lock_holder_alive os N s \<and> config_interface_lock_force s
      \<and> os_fopen_w os (lock_path_of os N)"
  then obtain entry where l: "bbl_interface_lock os N s =
      (Inr (), (LOG entry s)\<lparr>fs := (fs s)(lock_path_of os N \<mapsto> printf_d (os_getpid os))\<rparr>)"
    using lock_alive_forced [of os N s] by auto
  show "fst (bbl_interface_lock os N s) = Inr ()"
    by (simp add: l)
  show "fs (snd (bbl_interface_lock os N s)) =
      (fs s)(lock_path_of os N \<mapsto> printf_d (os_getpid os))"
    by (simp add: l LOG_def)
next
  assume a: "N \<in> set (map if_name (interface_qhead s)) \<and> os_remove os (lock_path_of os N)
      \<and> os_fopen_w os (lock_path_of os N)"
  then have free: "fs (bbl_interface_unlock_all os s) (lock_path_of os N) = None"
    by (auto simp: unlock_all_fs)
  from lock_no_file [OF this] a
  have l: "bbl_interface_lock os N (bbl_interface_unlock_all os s) =
      (Inr (), (bbl_interface_unlock_all os s)
         \<lparr>fs := (fs (bbl_interface_unlock_all os s))
            (lock_path_of os N \<mapsto> printf_d (os_getpid os))\<rparr>)"
    by simp
  show "fst (bbl_interface_lock os N (bbl_interface_unlock_all os s)) = Inr ()"
    by (simp add: l)
  show "fs (snd (bbl_interface_lock os N (bbl_interface_unlock_all os s)))
      (lock_path_of os N) = Some (printf_d (os_getpid os))"
    by (simp add: l)
  let ?s = "(bbl_interface_unlock_all os s)
      \<lparr>pcap_index := pcap_index (bbl_interface_unlock_all os s) + 1\<rparr>"
  have "fs ?s (lock_path_of os N) = None"
    using free by simp
  from lock_no_file [OF this] a have "fst (bbl_interface_lock os N ?s) = Inr ()"
    by simp
  from add_lock_success [OF this]
  show "fst (bbl_interface_add os N lc (bbl_interface_unlock_all os s)) \<notin>
      {Inl Lock_in_use, Inl Lock_invalid, Inl Lock_open_failed}" .
next
  assume "N \<in> set (map if_name (interface_qhead s)) \<and> os_remove os (lock_path_of os N)
      \<and> os_fopen_w os (lock_path_of os N) \<and> os_calloc os N
      \<and> os_ioctl_SIOCGIFHWADDR os (snprintf IFNAMSIZ N) \<noteq> None
      \<and> os_ioctl_SIOCGIFINDEX os (snprintf IFNAMSIZ N) \<noteq> None
      \<and> (\<forall>i. os_bbl_lag_interface_add os i lc)
      \<and> (\<forall>i. os_bbl_io_add_interface os i)"
  then show "\<exists>interface s'.
      bbl_interface_add os N lc (bbl_interface_unlock_all os s) = (Inr interface, s')
    \<and> interface_qhead s' = interface_qhead s @ [interface]
    \<and> if_name interface = N
    \<and> fs s' (lock_path_of os N) = Some (printf_d (os_getpid os))"
    using release_then_add [of N s os lc] by blast
next
  assume "lc_interface lc = N \<and> N \<in> set (map if_name (interface_qhead s))"
  then show "bbl_interface_init_loop os (lc # rest) (bbl_interface_unlock_all os s) =
      (Inl Duplicate_link, LOG (Log_duplicate_link N) (bbl_interface_unlock_all os s))"
    using release_then_loop_duplicate [of lc s os rest] by auto
qed

text \<open>
  Claim C5, as amended. When the lock file records a process that is gone, lock
  acquisition logs nothing and proceeds: it rewrites the file with the identifier of
  the current process. When the content of the file gives no process identifier
  greater than 1, it logs an error, and then it proceeds in the same way only if
  lock-force is set; without lock-force it fails there and leaves the file as it is.
  Rewriting needs a file that can be opened for writing.
\<close>

theorem stale_or_invalid_lock_file:
  "(lock_holder_gone os N s \<and> os_fopen_w os (lock_path_of os N) \<longrightarrow>
      bbl_interface_lock os N s =
        (Inr (), s\<lparr>fs := (fs s)(lock_path_of os N \<mapsto> printf_d (os_getpid os))\<rparr>))
   \<and> (lock_file_invalid os N s \<and> config_interface_lock_force s
        \<and> os_fopen_w os (lock_path_of os N) \<longrightarrow>
      bbl_interface_lock os N s =
        (Inr (), (LOG (Log_invalid_lock_file (lock_path_of os N)) s)
           \<lparr>fs := (fs s)(lock_path_of os N \<mapsto> printf_d (os_getpid os))\<rparr>))
   \<and> (lock_file_invalid os N s \<and> \<not> config_interface_lock_force s \<longrightarrow>
      bbl_interface_lock os N s =
        (Inl Lock_invalid, LOG (Log_invalid_lock_file (lock_path_of os N)) s))"
  using lock_gone [of os N s] lock_invalid_forced [of os N s] lock_invalid_unforced [of os N s]
  by blast

text \<open>
  Claim C4 as stated fails in two places. With lock-force set and a live holder
  recorded, lock acquisition still fails when the lock file cannot be opened for
  writing. And after \<open>eth0\<close> has been registered and its lock file removed by the
  release, registering \<open>eth0\<close> again through the initialization loop fails as a
  duplicate.
\<close>

theorem lock_force_write_failure_counterexample:
  "lock_holder_alive example_os_no_write ''eth0'' (example_lock_file_forced ''4242'')
   \<and> config_interface_lock_force (example_lock_file_forced ''4242'')
   \<and> fst (bbl_interface_lock example_os_no_write ''eth0'' (example_lock_file_forced ''4242'')) =
       Inl Lock_open_failed
   \<and> fs (bbl_interface_unlock_all example_os
        (snd (bbl_interface_add example_os ''eth0'' (example_link ''eth0'' 0) example_state)))
       ''/run/lock/bngblaster_eth0.lock'' = None
   \<and> fst (bbl_interface_init_loop example_os [example_link ''eth0'' 0]
        (bbl_interface_unlock_all example_os
          (snd (bbl_interface_add example_os ''eth0'' (example_link ''eth0'' 0) example_state)))) =
       Inl Duplicate_link"
proof -
  have forced: "lock_holder_alive example_os_no_write ''eth0'' (example_lock_file_forced ''4242'')
      \<and> config_interface_lock_force (example_lock_file_forced ''4242'')
      \<and> fst (bbl_interface_lock example_os_no_write ''eth0''
            (example_lock_file_forced ''4242'')) = Inl Lock_open_failed"
    by (simp add: example_lock_files example_lock_force)
      (simp add: bbl_interface_lock_def Let_def example_defs lock_path_of_def snprintf_def
        scanf_examples printf_examples ENOENT_def LOG_def)
  obtain interface s1 where add:
    "bbl_interface_add example_os ''eth0'' (example_link ''eth0'' 0) example_state =
      (Inr interface, s1)"
    using add_eth0 by auto
  have q: "lc_interface (example_link ''eth0'' 0) \<in> set (map if_name (interface_qhead s1))"
    using add_success [OF add] by (simp add: example_link_simps)
  have released: "fs (bbl_interface_unlock_all example_os s1)
      ''/run/lock/bngblaster_eth0.lock'' = None"
    using add_success [OF add]
    by (simp add: unlock_all_fs example_lock_path) (simp add: example_os_def)
  have "fst (bbl_interface_init_loop example_os [example_link ''eth0'' 0]
      (bbl_interface_unlock_all example_os s1)) = Inl Duplicate_link"
    using release_then_loop_duplicate [OF q, of example_os "[]"] by simp
  with forced released show ?thesis
    by (simp add: add)
qed

theorem lock_conflict_override_release_witness:
  "fst (bbl_interface_lock example_os ''eth0'' (example_lock_file ''4242'')) \<in>
     {Inl Lock_in_use, Inl Lock_invalid}
   \<and> isl (fst (bbl_interface_add example_os ''eth0'' (example_link ''eth0'' 0)
        (example_lock_file ''4242'')))
   \<and> fst (bbl_interface_lock example_os ''eth0'' (example_lock_file_forced ''4242'')) = Inr ()
   \<and> fst (bbl_interface_lock example_os ''eth0''
        (bbl_interface_unlock_all example_os
          (snd (bbl_interface_add example_os ''eth0'' (example_link ''eth0'' 0) example_state)))) =
       Inr ()
   \<and> map_sum id if_name (fst (bbl_interface_add example_os ''eth0'' (example_link ''eth0'' 0)
        (bbl_interface_unlock_all example_os
          (snd (bbl_interface_add example_os ''eth0'' (example_link ''eth0'' 0) example_state))))) =
       Inr ''eth0''
   \<and> fst (bbl_interface_init_loop example_os [example_link ''eth0'' 0]
        (bbl_interface_unlock_all example_os
          (snd (bbl_interface_add example_os ''eth0'' (example_link ''eth0'' 0) example_state)))) =
       Inl Duplicate_link"
proof -
  have w: "os_fopen_w example_os (lock_path_of example_os ''eth0'')"
    and r: "os_remove example_os (lock_path_of example_os ''eth0'')"
    by (simp_all add: example_os_def)
  have a: "lock_holder_alive example_os ''eth0'' (example_lock_file ''4242'')
      \<and> \<not> config_interface_lock_force (example_lock_file ''4242'')"
    by (simp add: example_lock_files example_lock_force)
  have b: "lock_holder_alive example_os ''eth0'' (example_lock_file_forced ''4242'')
      \<and> config_interface_lock_force (example_lock_file_forced ''4242'')
      \<and> os_fopen_w example_os (lock_path_of example_os ''eth0'')"
    by (simp add: example_lock_files example_lock_force w)
  obtain interface s1 where add:
    "bbl_interface_add example_os ''eth0'' (example_link ''eth0'' 0) example_state =
      (Inr interface, s1)"
    using add_eth0 by auto
  have c: "''eth0'' \<in> set (map if_name (interface_qhead s1))
      \<and> os_remove example_os (lock_path_of example_os ''eth0'')
      \<and> os_fopen_w example_os (lock_path_of example_os ''eth0'')"
    using add_success [OF add] by (simp add: w r)
  have d: "os_calloc example_os ''eth0''
      \<and> os_ioctl_SIOCGIFHWADDR example_os (snprintf IFNAMSIZ ''eth0'') \<noteq> None
      \<and> os_ioctl_SIOCGIFINDEX example_os (snprintf IFNAMSIZ ''eth0'') \<noteq> None
      \<and> (\<forall>i. os_bbl_lag_interface_add example_os i (example_link ''eth0'' 0))
      \<and> (\<forall>i. os_bbl_io_add_interface example_os i)"
    by (simp add: example_os_def snprintf_def IFNAMSIZ_def)
  have e: "lc_interface (example_link ''eth0'' 0) = ''eth0''"
    by (simp add: example_link_simps)
  have "fst (bbl_interface_lock example_os ''eth0'' (example_lock_file ''4242'')) \<in>
      {Inl Lock_in_use, Inl Lock_invalid}
    \<and> isl (fst (bbl_interface_add example_os ''eth0'' (example_link ''eth0'' 0)
        (example_lock_file ''4242'')))"
    using lock_conflict_override_release
        [of example_os "''eth0''" "example_lock_file ''4242''" "example_link ''eth0'' 0"] a
    by blast
  moreover
  have "fst (bbl_interface_lock example_os ''eth0'' (example_lock_file_forced ''4242'')) = Inr ()"
    using lock_conflict_override_release
        [of example_os "''eth0''" "example_lock_file_forced ''4242''" "example_link ''eth0'' 0"] b
    by blast
  moreover
  note released = lock_conflict_override_release
      [of example_os "''eth0''" s1 "example_link ''eth0'' 0" "[]"]
  have "fst (bbl_interface_lock example_os ''eth0'' (bbl_interface_unlock_all example_os s1)) =
      Inr ()"
    using released c by blast
  moreover
  have "\<exists>interface' s'.
      bbl_interface_add example_os ''eth0'' (example_link ''eth0'' 0)
        (bbl_interface_unlock_all example_os s1) = (Inr interface', s')
      \<and> if_name interface' = ''eth0''"
    using released c d by blast
  then have "map_sum id if_name (fst (bbl_interface_add example_os ''eth0''
      (example_link ''eth0'' 0) (bbl_interface_unlock_all example_os s1))) = Inr ''eth0''"
    by auto
  moreover
  have "fst (bbl_interface_init_loop example_os [example_link ''eth0'' 0]
      (bbl_interface_unlock_all example_os s1)) = Inl Duplicate_link"
    using released c e by simp
  ultimately show ?thesis
    by (simp add: add)
qed

text \<open>
  Claim C5 as stated fails: with a lock file whose content is no process identifier
  and lock-force off, lock acquisition fails and the file keeps its content.
\<close>

theorem invalid_lock_file_counterexample:
  "lock_file_invalid example_os ''eth0'' (example_lock_file ''garbage'')
   \<and> \<not> config_interface_lock_force (example_lock_file ''garbage'')
   \<and> fst (bbl_interface_lock example_os ''eth0'' (example_lock_file ''garbage'')) =
       Inl Lock_invalid
   \<and> fs (snd (bbl_interface_lock example_os ''eth0'' (example_lock_file ''garbage'')))
       ''/run/lock/bngblaster_eth0.lock'' = Some ''garbage''"
  by (simp add: example_lock_files example_lock_force)
    (simp add: bbl_interface_lock_def Let_def example_defs lock_path_of_def snprintf_def
      scanf_examples LOG_def)

theorem stale_or_invalid_lock_file_witness:
  "bbl_interface_lock example_os ''eth0'' (example_lock_file ''4243'') =
     (Inr (), (example_lock_file ''4243'')
        \<lparr>fs := (fs (example_lock_file ''4243''))(''/run/lock/bngblaster_eth0.lock'' \<mapsto> ''4711'')\<rparr>)
   \<and> bbl_interface_lock example_os ''eth0'' (example_lock_file_forced ''garbage'') =
     (Inr (), (LOG (Log_invalid_lock_file ''/run/lock/bngblaster_eth0.lock'')
                 (example_lock_file_forced ''garbage''))
        \<lparr>fs := (fs (example_lock_file_forced ''garbage''))
           (''/run/lock/bngblaster_eth0.lock'' \<mapsto> ''4711'')\<rparr>)
   \<and> bbl_interface_lock example_os ''eth0'' (example_lock_file ''garbage'') =
     (Inl Lock_invalid, LOG (Log_invalid_lock_file ''/run/lock/bngblaster_eth0.lock'')
        (example_lock_file ''garbage''))"
proof -
  have w: "os_fopen_w example_os (lock_path_of example_os ''eth0'')"
    by (simp add: example_os_def)
  have a: "lock_holder_gone example_os ''eth0'' (example_lock_file ''4243'')"
    by (simp add: example_lock_files)
  have b: "lock_file_invalid example_os ''eth0'' (example_lock_file_forced ''garbage'')
      \<and> config_interface_lock_force (example_lock_file_forced ''garbage'')"
    by (simp add: example_lock_files example_lock_force)
  have c: "lock_file_invalid example_os ''eth0'' (example_lock_file ''garbage'')
      \<and> \<not> config_interface_lock_force (example_lock_file ''garbage'')"
    by (simp add: example_lock_files example_lock_force)
  show ?thesis
    using stale_or_invalid_lock_file [of example_os "''eth0''" "example_lock_file ''4243''"]
      stale_or_invalid_lock_file [of example_os "''eth0''" "example_lock_file_forced ''garbage''"]
      stale_or_invalid_lock_file [of example_os "''eth0''" "example_lock_file ''garbage''"]
      a b c w
    by (simp add: example_lock_path example_pid)
qed

lemma kernel_info_dpdk:
  "if_io_mode interface = os_IO_MODE_DPDK os \<Longrightarrow>
   bbl_interface_set_kernel_info os interface s = (Inr (), interface, s)"
  by (simp add: bbl_interface_set_kernel_info_def)

lemma kernel_info_kernel_bound:
  assumes "if_io_mode interface \<noteq> os_IO_MODE_DPDK os"
  shows "fst (bbl_interface_set_kernel_info os interface s) =
    (case os_ioctl_SIOCGIFHWADDR os (snprintf IFNAMSIZ (if_name interface)) of
       None \<Rightarrow> Inl Mac_address_error
     | Some sa_data \<Rightarrow>
         (case os_ioctl_SIOCGIFINDEX os (snprintf IFNAMSIZ (if_name interface)) of
            None \<Rightarrow> Inl Interface_index_error
          | Some ifr_ifindex \<Rightarrow> Inr ()))"
  using assms
  by (simp add: bbl_interface_set_kernel_info_def Let_def split: option.splits)

text \<open>
  The other possibility for the enumerator that the source does not give: were
  \<open>IO_MODE_DPDK\<close> the mode 0, no registration would make the kernel queries,
  whatever mode the link is configured for.
\<close>

lemma mode_zero_skips_queries:
  assumes "os_IO_MODE_DPDK os = 0"
  shows "fst (bbl_interface_add os N lc s) \<notin> {Inl Mac_address_error, Inl Interface_index_error}"
proof (cases "os_calloc os N")
  case False
  then show ?thesis by (simp add: bbl_interface_add_def)
next
  case True
  obtain r s2 where l: "bbl_interface_lock os N (s\<lparr>pcap_index := pcap_index s + 1\<rparr>) = (r, s2)"
    by (cases "bbl_interface_lock os N (s\<lparr>pcap_index := pcap_index s + 1\<rparr>)")
  from lock_result [OF l]
  have r: "r \<in> {Inr (), Inl Lock_in_use, Inl Lock_invalid, Inl Lock_open_failed}"
    by simp
  let ?i = "bbl_interface_zero\<lparr>if_name := N, if_pcap_index := pcap_index s\<rparr>"
  have "if_io_mode ?i = os_IO_MODE_DPDK os"
    using assms by (simp add: bbl_interface_zero_def)
  note k = kernel_info_dpdk [OF this]
  show ?thesis
    using True l r
    by (auto simp: bbl_interface_add_def Let_def k split: if_splits)
qed

text \<open>
  Claim C6, where the code departs from it. \<open>bbl_interface_add\<close> sets
  \<open>interface->io.mode\<close> from the link configuration only after it has called
  \<open>bbl_interface_set_kernel_info\<close>, which therefore sees mode 0 of the zeroed
  interface. When \<open>IO_MODE_DPDK\<close> is not 0, a link configured for DPDK gets the
  kernel queries like any other, and a failing hardware address query makes its
  registration fail.
\<close>

theorem dpdk_link_queries_kernel:
  assumes "lc_io_mode lc = os_IO_MODE_DPDK os"
    and "os_IO_MODE_DPDK os \<noteq> 0"
    and "os_calloc os N"
    and "fst (bbl_interface_lock os N (s\<lparr>pcap_index := pcap_index s + 1\<rparr>)) = Inr ()"
    and "os_ioctl_SIOCGIFHWADDR os (snprintf IFNAMSIZ N) = None"
  shows "fst (bbl_interface_add os N lc s) = Inl Mac_address_error"
proof -
  obtain s2 where l: "bbl_interface_lock os N (s\<lparr>pcap_index := pcap_index s + 1\<rparr>) = (Inr (), s2)"
    using assms(4) by (cases "bbl_interface_lock os N (s\<lparr>pcap_index := pcap_index s + 1\<rparr>)") auto
  show ?thesis
    using assms(2,3,5) l
    by (simp add: bbl_interface_add_def Let_def bbl_interface_set_kernel_info_def
        bbl_interface_zero_def)
qed

theorem dpdk_link_queries_kernel_witness:
  "lc_io_mode (example_link ''dpdk0'' 3) = os_IO_MODE_DPDK example_os
   \<and> fst (bbl_interface_add example_os ''dpdk0'' (example_link ''dpdk0'' 3) example_state) =
       Inl Mac_address_error"
proof -
  have m: "lc_io_mode (example_link ''dpdk0'' 3) = os_IO_MODE_DPDK example_os"
    and z: "os_IO_MODE_DPDK example_os \<noteq> 0"
    and c: "os_calloc example_os ''dpdk0''"
    by (simp_all add: example_link_def example_os_def)
  have l: "fst (bbl_interface_lock example_os ''dpdk0''
      (example_state\<lparr>pcap_index := pcap_index example_state + 1\<rparr>)) = Inr ()"
    using lock_no_file [of "example_state\<lparr>pcap_index := pcap_index example_state + 1\<rparr>"
        example_os "''dpdk0''"]
    by (simp add: example_defs)
  have q: "os_ioctl_SIOCGIFHWADDR example_os (snprintf IFNAMSIZ ''dpdk0'') = None"
    by (simp add: example_os_def snprintf_def IFNAMSIZ_def)
  from dpdk_link_queries_kernel [OF m z c l q] m show ?thesis
    by simp
qed

end
